theory Spec2Isabelle
  imports Main "HOL-Library.Sublist"
begin

section \<open>flow/application.go: application names by port\<close>

text \<open>
  \<^verbatim>\<open>type ApplicationPortMap struct { UDP map[int]string; TCP map[int]string }\<close>.
  A Go map is a partial function; a nil map reads like an empty one. The methods take a
  pointer receiver that may be nil, so the receiver is an \<open>option\<close>: \<open>None\<close> is nil.
\<close>

record ApplicationPortMap =
  UDP :: "int \<rightharpoonup> string"
  TCP :: "int \<rightharpoonup> string"

text \<open>
  \<open>application\<close> never reads its receiver; the receiver is kept as an argument because
  the source has it.
\<close>

definition application ::
  "ApplicationPortMap option \<Rightarrow> int \<Rightarrow> int \<Rightarrow> (int \<rightharpoonup> string) \<Rightarrow> string \<times> bool" where
  "application a srcPort dstPort protoMap =
     (case protoMap srcPort of
        Some app \<Rightarrow> (app, True)
      | None \<Rightarrow>
          (case protoMap dstPort of
             Some app \<Rightarrow> (app, True)
           | None \<Rightarrow> ('''', False)))"

definition TCPApplication :: "ApplicationPortMap option \<Rightarrow> int \<Rightarrow> int \<Rightarrow> string \<times> bool" where
  "TCPApplication a srcPort dstPort =
     (case a of
        None \<Rightarrow> ('''', False)
      | Some m \<Rightarrow> application a srcPort dstPort (TCP m))"

definition UDPApplication :: "ApplicationPortMap option \<Rightarrow> int \<Rightarrow> int \<Rightarrow> string \<times> bool" where
  "UDPApplication a srcPort dstPort =
     (case a of
        None \<Rightarrow> ('''', False)
      | Some m \<Rightarrow> application a srcPort dstPort (UDP m))"

section \<open>The Elasticsearch graph backend: data model\<close>

text \<open>
  \<^verbatim>\<open>type Identifier string\<close>; a Go \<open>error\<close> is represented by its message, the string
  \<open>err.Error()\<close> returns.
\<close>

type_synonym Identifier = string
type_synonym error = string

text \<open>
  The values a \<^verbatim>\<open>map[string]interface{}\<close> document holds in this file: strings,
  identifiers, 64-bit integers (epoch milliseconds and revisions) and metadata maps.
  No arithmetic is done on revisions or timestamps here, so \<open>int\<close> stands for
  \<^verbatim>\<open>int64\<close>: every \<^verbatim>\<open>int64\<close> value is an \<open>int\<close>.
\<close>

datatype val =
    VString string
  | VIdentifier Identifier
  | VInt int
  | VMetadata "(string \<times> val) list"

type_synonym Metadata = "(string \<times> val) list"
type_synonym document = "string \<rightharpoonup> val"

text \<open>\<open>Metadata.Clone\<close> is a deep copy; HOL values are immutable, so the copy is the value.\<close>

definition Clone :: "Metadata \<Rightarrow> Metadata" where
  "Clone m = m"

text \<open>
  The fields of \<open>graphElement\<close> that this file reads. \<open>'t\<close> is \<^verbatim>\<open>time.Time\<close>.
  \<^verbatim>\<open>type Node struct { graphElement }\<close> adds nothing; \<open>Edge\<close> adds \<open>parent\<close> and \<open>child\<close>.
\<close>

record 't graphElement =
  ID :: Identifier
  host :: string
  createdAt :: 't
  updatedAt :: 't
  deletedAt :: 't
  metadata :: Metadata
  revision :: int

type_synonym 't Node = "'t graphElement"

record 't Edge = "'t graphElement" +
  parent :: Identifier
  child :: Identifier

text \<open>
  The \<^verbatim>\<open>interface{}\<close> argument of \<open>updateTimes\<close> and \<open>MetadataUpdated\<close> with the two
  cases of their type switches; \<open>OtherElem\<close> is a value of any other dynamic type, for
  which neither switch has a case.
\<close>

datatype 't element = NodeElem "'t Node" | EdgeElem "'t Edge" | OtherElem

text \<open>
  \<^verbatim>\<open>elastic.Query\<close>: a fragment produced by the client's \<open>FormatFilter\<close> (kept as its
  source text), or the bool query \<^verbatim>\<open>elastic.NewBoolQuery().Must(filters...)\<close> with its
  must clauses.
\<close>

datatype Query = LeafQuery string | BoolQuery (must: "Query list")

text \<open>
  Modelled from the spec: the filters of a query are combined with logical AND, and a
  query composed of zero filters is unconstrained. The library that evaluates a bool
  query is not part of src/. A bool query selects the documents that every must clause
  selects, hence every document when it has no clause. \<open>leaf\<close> is the meaning of the
  fragments, which is the client's to define.
\<close>

fun matches :: "(string \<Rightarrow> document \<Rightarrow> bool) \<Rightarrow> Query \<Rightarrow> document \<Rightarrow> bool" where
  "matches leaf (LeafQuery s) d = leaf s d"
| "matches leaf (BoolQuery qs) d = list_all (\<lambda>q. matches leaf q d) qs"

text \<open>\<open>'f\<close> is \<^verbatim>\<open>filters.Filter\<close>; a \<^verbatim>\<open>*filters.Filter\<close> is an \<open>option\<close>.\<close>

record 'f SearchQuery =
  Filter :: "'f option"
  Sort :: bool
  SortBy :: string

record 'f TimedSearchQuery =
  SearchQuery :: "'f SearchQuery"
  TimeFilter :: "'f option"
  MetadataFilter :: "'f option"

text \<open>
  Modelled from the spec: a time slice is a closed time interval. Its type is declared
  outside src/; the code here only tests a slice for nil and hands it to
  \<open>getTimeFilter\<close>.
\<close>

record TimeSlice =
  Start :: int
  Last :: int

text \<open>\<open>GraphContext\<close>, built in \<open>rollAndDumpTopology\<close> as \<^verbatim>\<open>GraphContext{nil, false}\<close>.\<close>

record GraphContext =
  TimeSlice :: "TimeSlice option"
  TimePoint :: bool

text \<open>
  A \<open>GraphElementMatcher\<close> is used only through \<open>m.Filter()\<close>: it is represented by the
  pair that call returns. A nil matcher is \<open>None\<close>.
\<close>

type_synonym 'f GraphElementMatcher = "'f option \<times> error option"

text \<open>
  Of a \<^verbatim>\<open>*elastic.SearchResult\<close> the code reads \<open>out.Hits.Hits\<close> and each hit's \<open>Source\<close>:
  a result is the list of the hits' raw JSON sources. (\<open>hitToNode\<close> and \<open>hitToEdge\<close>
  dereference \<open>Source\<close> unguarded; a hit is taken to have one.)
\<close>

type_synonym SearchResult = "string list"

subsection \<open>Observable effects\<close>

text \<open>
  Every call that changes the store, every search, every write to the revision tracker
  and every log line is appended to a trace, in program order, so that what a function
  did (and in which order) can be stated. Store calls carry their arguments and what the
  client returned.
\<close>

datatype level = ErrorLevel | DebugLevel

datatype 'f event =
    BulkIndexCall string string document "bool \<times> error option"
  | BulkUpdateWithPartialDocCall string string document "error option"
  | RollIndexCall "error option"
  | SearchCall string Query string "'f SearchQuery" "SearchResult option \<times> error option"
  | TrackerSet Identifier int
  | TrackerDelete Identifier
  | Logged level string "string list"

text \<open>
  \<open>ElasticSearchBackend\<close>: the revision tracker \<open>prevRevision\<close>; \<open>world\<close> is the state
  of what lies behind \<open>b.client\<close> and the clock; \<open>trace\<close> is the record of effects.
\<close>

record ('w, 'f) backend =
  prevRevision :: "Identifier \<rightharpoonup> int"
  world :: 'w
  trace :: "'f event list"

subsection \<open>What the backend calls and src/ does not define\<close>

text \<open>
  The store client (\<open>ElasticSearchClientInterface\<close>), the clock, and the helpers of other
  packages are parameters, so every theorem holds for every client. A client method that
  can change the store takes the world and returns the new one.
  \<^item> \<open>BulkIndex\<close> returns \<open>(shouldRoll, err)\<close>; \<open>Search\<close> returns \<open>(sr, err)\<close>, \<open>sr\<close> nil
    being \<open>None\<close>;
  \<^item> \<open>GetIndexAlias\<close> reads the world; \<open>FormatFilter\<close> depends on its arguments only and
    returns nil (\<open>None\<close>) or a query fragment;
  \<^item> \<open>Now\<close> is \<^verbatim>\<open>time.Now()\<close>; \<open>UnixMillis\<close> is \<^verbatim>\<open>common.UnixMillis\<close>; \<open>IsZero\<close> is
    \<^verbatim>\<open>Time.IsZero\<close>; \<open>ZeroTime\<close> is the zero \<^verbatim>\<open>time.Time\<close>;
  \<^item> \<open>JSONDecode\<close> is \<^verbatim>\<open>common.JSONDecode\<close> into a fresh map; \<open>NodeDecode\<close> and
    \<open>EdgeDecode\<close> are the \<open>Decode\<close> methods, which fill the element they are given and
    may fail after filling part of it;
  \<^item> \<open>NewTermStringFilter\<close>, \<open>getTimeFilter\<close>, \<open>NewFilterForEdge\<close>, \<open>dedupNodes\<close> and
    \<open>dedupEdges\<close> are the functions of those names.
\<close>

record ('w, 't, 'f) env =
  GetIndexAlias :: "'w \<Rightarrow> string"
  BulkIndex :: "string \<Rightarrow> string \<Rightarrow> document \<Rightarrow> 'w \<Rightarrow> (bool \<times> error option) \<times> 'w"
  BulkUpdateWithPartialDoc :: "string \<Rightarrow> string \<Rightarrow> document \<Rightarrow> 'w \<Rightarrow> error option \<times> 'w"
  RollIndex :: "'w \<Rightarrow> error option \<times> 'w"
  Search :: "string \<Rightarrow> Query \<Rightarrow> string \<Rightarrow> 'f SearchQuery \<Rightarrow> 'w
             \<Rightarrow> (SearchResult option \<times> error option) \<times> 'w"
  FormatFilter :: "'f option \<Rightarrow> string \<Rightarrow> Query option"
  Now :: "'w \<Rightarrow> 't \<times> 'w"
  UnixMillis :: "'t \<Rightarrow> int"
  IsZero :: "'t \<Rightarrow> bool"
  ZeroTime :: 't
  JSONDecode :: "string \<Rightarrow> error + document"
  NodeDecode :: "document \<Rightarrow> 't Node \<Rightarrow> error option \<times> 't Node"
  EdgeDecode :: "document \<Rightarrow> 't Edge \<Rightarrow> error option \<times> 't Edge"
  NewTermStringFilter :: "string \<Rightarrow> string \<Rightarrow> 'f"
  getTimeFilter :: "TimeSlice option \<Rightarrow> 'f option"
  NewFilterForEdge :: "Identifier \<Rightarrow> Identifier \<Rightarrow> 'f option"
  dedupNodes :: "'t Node list \<Rightarrow> 't Node list"
  dedupEdges :: "'t Edge list \<Rightarrow> 't Edge list"

definition emit :: "'f event \<Rightarrow> ('w, 'f) backend \<Rightarrow> ('w, 'f) backend" where
  "emit ev b = b\<lparr>trace := trace b @ [ev]\<rparr>"

text \<open>The four calls on \<open>b.client\<close> that are traced: run the client, record the call.\<close>

definition clientBulkIndex ::
  "('w, 't, 'f) env \<Rightarrow> string \<Rightarrow> string \<Rightarrow> document \<Rightarrow> ('w, 'f) backend
   \<Rightarrow> (bool \<times> error option) \<times> ('w, 'f) backend" where
  "clientBulkIndex env kind docID obj b =
     (case BulkIndex env kind docID obj (world b) of
        (r, w) \<Rightarrow> (r, emit (BulkIndexCall kind docID obj r) (b\<lparr>world := w\<rparr>)))"

definition clientBulkUpdateWithPartialDoc ::
  "('w, 't, 'f) env \<Rightarrow> string \<Rightarrow> string \<Rightarrow> document \<Rightarrow> ('w, 'f) backend
   \<Rightarrow> error option \<times> ('w, 'f) backend" where
  "clientBulkUpdateWithPartialDoc env kind docID obj b =
     (case BulkUpdateWithPartialDoc env kind docID obj (world b) of
        (r, w) \<Rightarrow> (r, emit (BulkUpdateWithPartialDocCall kind docID obj r) (b\<lparr>world := w\<rparr>)))"

definition clientRollIndex ::
  "('w, 't, 'f) env \<Rightarrow> ('w, 'f) backend \<Rightarrow> error option \<times> ('w, 'f) backend" where
  "clientRollIndex env b =
     (case RollIndex env (world b) of
        (r, w) \<Rightarrow> (r, emit (RollIndexCall r) (b\<lparr>world := w\<rparr>)))"

definition clientSearch ::
  "('w, 't, 'f) env \<Rightarrow> string \<Rightarrow> Query \<Rightarrow> string \<Rightarrow> 'f SearchQuery \<Rightarrow> ('w, 'f) backend
   \<Rightarrow> (SearchResult option \<times> error option) \<times> ('w, 'f) backend" where
  "clientSearch env obj q index opts b =
     (case Search env obj q index opts (world b) of
        (r, w) \<Rightarrow> (r, emit (SearchCall obj q index opts r) (b\<lparr>world := w\<rparr>)))"

subsection \<open>Document identifiers\<close>

text \<open>
  \<^verbatim>\<open>strconv.FormatInt(i, 10)\<close>: the decimal digits, most significant first, after a
  minus sign when \<open>i\<close> is negative.
\<close>

fun digits10 :: "nat \<Rightarrow> string" where
  "digits10 n =
     (if n < 10 then [''0123456789'' ! n]
      else digits10 (n div 10) @ [''0123456789'' ! (n mod 10)])"

declare digits10.simps [simp del]

definition FormatInt :: "int \<Rightarrow> string" where
  "FormatInt i = (if i < 0 then ''-'' @ digits10 (nat (- i)) else digits10 (nat i))"

section \<open>The Elasticsearch graph backend: operations\<close>

subsection \<open>Mapping elements to documents\<close>

definition mapElement :: "('w, 't, 'f) env \<Rightarrow> ('t, 'a) graphElement_scheme \<Rightarrow> document" where
  "mapElement env e =
     (let obj = [''ID'' \<mapsto> VString (ID e),
                 ''Host'' \<mapsto> VString (host e),
                 ''CreatedAt'' \<mapsto> VInt (UnixMillis env (createdAt e)),
                 ''UpdatedAt'' \<mapsto> VInt (UnixMillis env (updatedAt e)),
                 ''Metadata'' \<mapsto> VMetadata (Clone (metadata e)),
                 ''Revision'' \<mapsto> VInt (revision e)]
      in if \<not> IsZero env (deletedAt e)
         then obj(''DeletedAt'' \<mapsto> VInt (UnixMillis env (deletedAt e)))
         else obj)"

definition mapNode :: "('w, 't, 'f) env \<Rightarrow> 't Node \<Rightarrow> document" where
  "mapNode env n = mapElement env n"

definition mapEdge :: "('w, 't, 'f) env \<Rightarrow> 't Edge \<Rightarrow> document" where
  "mapEdge env e =
     (let obj = mapElement env e;
          obj = obj(''Parent'' \<mapsto> VIdentifier (parent e));
          obj = obj(''Child'' \<mapsto> VIdentifier (child e))
      in obj)"

subsection \<open>Decoding hits\<close>

text \<open>
  \<open>hitToNode\<close> and \<open>hitToEdge\<close> fill the element they are given and return the error:
  when the JSON does not parse the element is untouched, when \<open>Decode\<close> fails the element
  is what \<open>Decode\<close> left.
\<close>

definition hitToNode :: "('w, 't, 'f) env \<Rightarrow> string \<Rightarrow> 't Node \<Rightarrow> error option \<times> 't Node" where
  "hitToNode env source node =
     (case JSONDecode env source of
        Inl err \<Rightarrow> (Some err, node)
      | Inr obj \<Rightarrow>
          (case NodeDecode env obj node of
             (Some err, node') \<Rightarrow> (Some err, node')
           | (None, node') \<Rightarrow> (None, node')))"

definition hitToEdge :: "('w, 't, 'f) env \<Rightarrow> string \<Rightarrow> 't Edge \<Rightarrow> error option \<times> 't Edge" where
  "hitToEdge env source edge =
     (case JSONDecode env source of
        Inl err \<Rightarrow> (Some err, edge)
      | Inr obj \<Rightarrow>
          (case EdgeDecode env obj edge of
             (Some err, edge') \<Rightarrow> (Some err, edge')
           | (None, edge') \<Rightarrow> (None, edge')))"

text \<open>\<^verbatim>\<open>var node Node\<close> and \<^verbatim>\<open>var edge Edge\<close>: the zero values.\<close>

definition zeroNode :: "('w, 't, 'f) env \<Rightarrow> 't Node" where
  "zeroNode env =
     \<lparr>ID = [], host = [], createdAt = ZeroTime env, updatedAt = ZeroTime env,
      deletedAt = ZeroTime env, metadata = [], revision = 0\<rparr>"

definition zeroEdge :: "('w, 't, 'f) env \<Rightarrow> 't Edge" where
  "zeroEdge env =
     \<lparr>ID = [], host = [], createdAt = ZeroTime env, updatedAt = ZeroTime env,
      deletedAt = ZeroTime env, metadata = [], revision = 0, parent = [], child = []\<rparr>"

subsection \<open>Archival\<close>

text \<open>
  \<open>updateTimes\<close>: the type switch yields either an early \<open>return false\<close> (after the log
  line) or the \<open>kind\<close>, \<open>id\<close> and \<open>obj\<close> of the partial update; for a value that is
  neither a node nor an edge they keep their initial values.
\<close>

definition updateTimes ::
  "('w, 't, 'f) env \<Rightarrow> 't element \<Rightarrow> ('w, 'f) backend \<Rightarrow> bool \<times> ('w, 'f) backend" where
  "updateTimes env i b =
     (let sw =
        (case i of
           NodeElem n \<Rightarrow>
             (case prevRevision b (ID n) of
                None \<Rightarrow>
                  Inl (Logged ErrorLevel ''Update from an unknow revision, node: %s'' [ID n])
              | Some prev \<Rightarrow>
                  Inr (''node'', ID n @ ''-'' @ FormatInt prev,
                       [''ArchivedAt'' \<mapsto> VInt (UnixMillis env (updatedAt n))]))
         | EdgeElem e \<Rightarrow>
             (case prevRevision b (ID e) of
                None \<Rightarrow>
                  Inl (Logged ErrorLevel ''Update from an unknow revision, edge: %s'' [ID e])
              | Some prev \<Rightarrow>
                  Inr (''edge'', ID e @ ''-'' @ FormatInt prev,
                       [''ArchivedAt'' \<mapsto> VInt (UnixMillis env (updatedAt e))]))
         | OtherElem \<Rightarrow> Inr ([], [], Map.empty))
      in case sw of
           Inl logline \<Rightarrow> (False, emit logline b)
         | Inr (kind, docID, obj) \<Rightarrow>
             (case clientBulkUpdateWithPartialDoc env kind docID obj b of
                (Some err, b1) \<Rightarrow>
                  (False, emit (Logged ErrorLevel ''Error while archiving %s %s: %s''
                                  [kind, docID, err]) b1)
              | (None, b1) \<Rightarrow> (True, b1)))"

subsection \<open>Deletion\<close>

definition NodeDeleted ::
  "('w, 't, 'f) env \<Rightarrow> 't Node \<Rightarrow> ('w, 'f) backend \<Rightarrow> bool \<times> ('w, 'f) backend" where
  "NodeDeleted env n b =
     (let b0 = emit (TrackerDelete (ID n)) (b\<lparr>prevRevision := (prevRevision b)(ID n := None)\<rparr>);
          ms = UnixMillis env (deletedAt n);
          obj = [''DeletedAt'' \<mapsto> VInt ms, ''ArchivedAt'' \<mapsto> VInt ms];
          docID = ID n @ ''-'' @ FormatInt (revision n)
      in case clientBulkUpdateWithPartialDoc env ''node'' docID obj b0 of
           (Some err, b1) \<Rightarrow>
             (False, emit (Logged ErrorLevel ''Error while marking node as deleted %s: %s''
                             [docID, err]) b1)
         | (None, b1) \<Rightarrow> (True, b1))"

definition EdgeDeleted ::
  "('w, 't, 'f) env \<Rightarrow> 't Edge \<Rightarrow> ('w, 'f) backend \<Rightarrow> bool \<times> ('w, 'f) backend" where
  "EdgeDeleted env e b =
     (let b0 = emit (TrackerDelete (ID e)) (b\<lparr>prevRevision := (prevRevision b)(ID e := None)\<rparr>);
          ms = UnixMillis env (deletedAt e);
          obj = [''DeletedAt'' \<mapsto> VInt ms, ''ArchivedAt'' \<mapsto> VInt ms];
          docID = ID e @ ''-'' @ FormatInt (revision e)
      in case clientBulkUpdateWithPartialDoc env ''edge'' docID obj b0 of
           (Some err, b1) \<Rightarrow>
             (False, emit (Logged ErrorLevel ''Error while marking edge as deleted %s: %s''
                             [docID, err]) b1)
         | (None, b1) \<Rightarrow> (True, b1))"

subsection \<open>Queries\<close>

definition Query ::
  "('w, 't, 'f) env \<Rightarrow> string \<Rightarrow> 'f TimedSearchQuery \<Rightarrow> string \<Rightarrow> ('w, 'f) backend
   \<Rightarrow> (SearchResult option \<times> error option) \<times> ('w, 'f) backend" where
  "Query env obj tsq index b =
     (let filters = [];
          filters = (case FormatFilter env (TimeFilter tsq) [] of
                       Some tf \<Rightarrow> filters @ [tf] | None \<Rightarrow> filters);
          filters = (case FormatFilter env (Filter (SearchQuery tsq)) [] of
                       Some f \<Rightarrow> filters @ [f] | None \<Rightarrow> filters);
          filters = (case FormatFilter env (MetadataFilter tsq) ''Metadata'' of
                       Some mf \<Rightarrow> filters @ [mf] | None \<Rightarrow> filters);
          mustQuery = BoolQuery filters
      in clientSearch env obj mustQuery index (SearchQuery tsq) b)"

text \<open>
  The loops over \<open>out.Hits.Hits\<close>. Each round starts from a zero element, decodes the
  hit into it, logs when that failed, and appends the element to the result.
\<close>

fun decodeNodes ::
  "('w, 't, 'f) env \<Rightarrow> string list \<Rightarrow> 't Node list \<Rightarrow> ('w, 'f) backend
   \<Rightarrow> 't Node list \<times> ('w, 'f) backend" where
  "decodeNodes env [] nodes b = (nodes, b)"
| "decodeNodes env (d # ds) nodes b =
     (case hitToNode env d (zeroNode env) of
        (Some err, node) \<Rightarrow>
          decodeNodes env ds (nodes @ [node])
            (emit (Logged DebugLevel ''Failed to unmarshal node: %+v'' [d]) b)
      | (None, node) \<Rightarrow> decodeNodes env ds (nodes @ [node]) b)"

fun decodeEdges ::
  "('w, 't, 'f) env \<Rightarrow> string list \<Rightarrow> 't Edge list \<Rightarrow> ('w, 'f) backend
   \<Rightarrow> 't Edge list \<times> ('w, 'f) backend" where
  "decodeEdges env [] edges b = (edges, b)"
| "decodeEdges env (d # ds) edges b =
     (case hitToEdge env d (zeroEdge env) of
        (Some err, edge) \<Rightarrow>
          decodeEdges env ds (edges @ [edge])
            (emit (Logged DebugLevel ''Failed to unmarshal edge: %+v'' [d]) b)
      | (None, edge) \<Rightarrow> decodeEdges env ds (edges @ [edge]) b)"

definition searchNodes ::
  "('w, 't, 'f) env \<Rightarrow> 'f TimedSearchQuery \<Rightarrow> string \<Rightarrow> ('w, 'f) backend
   \<Rightarrow> 't Node list \<times> ('w, 'f) backend" where
  "searchNodes env tsq index b =
     (case Query env ''node'' tsq index b of
        ((out, Some err), b1) \<Rightarrow>
          ([], emit (Logged ErrorLevel ''Failed to query nodes: %s'' [err]) b1)
      | ((out, None), b1) \<Rightarrow>
          (case out of
             None \<Rightarrow> ([], b1)
           | Some hits \<Rightarrow>
               if length hits > 0 then decodeNodes env hits [] b1 else ([], b1)))"

definition searchEdges ::
  "('w, 't, 'f) env \<Rightarrow> 'f TimedSearchQuery \<Rightarrow> string \<Rightarrow> ('w, 'f) backend
   \<Rightarrow> 't Edge list \<times> ('w, 'f) backend" where
  "searchEdges env tsq index b =
     (case Query env ''edge'' tsq index b of
        ((out, Some err), b1) \<Rightarrow>
          ([], emit (Logged ErrorLevel ''Failed to query edges: %s'' [err]) b1)
      | ((out, None), b1) \<Rightarrow>
          (case out of
             None \<Rightarrow> ([], b1)
           | Some hits \<Rightarrow>
               if length hits > 0 then decodeEdges env hits [] b1 else ([], b1)))"

definition GetNode ::
  "('w, 't, 'f) env \<Rightarrow> Identifier \<Rightarrow> GraphContext \<Rightarrow> ('w, 'f) backend
   \<Rightarrow> 't Node list \<times> ('w, 'f) backend" where
  "GetNode env i t b =
     (let index = (if TimeSlice t = None then GetIndexAlias env (world b) else [])
      in case searchNodes env
                \<lparr>SearchQuery = \<lparr>Filter = Some (NewTermStringFilter env ''ID'' i),
                                 Sort = True, SortBy = ''Revision''\<rparr>,
                 TimeFilter = getTimeFilter env (TimeSlice t),
                 MetadataFilter = None\<rparr> index b of
           (nodes, b1) \<Rightarrow>
             if length nodes > 1 \<and> TimePoint t
             then ([nodes ! (length nodes - 1)], b1)
             else (nodes, b1))"

definition GetEdge ::
  "('w, 't, 'f) env \<Rightarrow> Identifier \<Rightarrow> GraphContext \<Rightarrow> ('w, 'f) backend
   \<Rightarrow> 't Edge list \<times> ('w, 'f) backend" where
  "GetEdge env i t b =
     (let index = (if TimeSlice t = None then GetIndexAlias env (world b) else [])
      in case searchEdges env
                \<lparr>SearchQuery = \<lparr>Filter = Some (NewTermStringFilter env ''ID'' i),
                                 Sort = True, SortBy = ''Revision''\<rparr>,
                 TimeFilter = getTimeFilter env (TimeSlice t),
                 MetadataFilter = None\<rparr> index b of
           (edges, b1) \<Rightarrow>
             if length edges > 1 \<and> TimePoint t
             then ([edges ! (length edges - 1)], b1)
             else (edges, b1))"

text \<open>
  The bulk queries. \<open>matcherFilter\<close> is the block \<^verbatim>\<open>if m != nil { f, err := m.Filter() ... }\<close>
  the three of them share: \<open>Inl ()\<close> is its early return of an empty list, \<open>Inr\<close>
  the filter it leaves. \<open>bulkSearchQuery\<close> is the \<open>searchQuery\<close> they start from: the zero
  \<open>SearchQuery\<close> (no filter, no sort), replaced when the time-point flag is off.
\<close>

definition matcherFilter :: "'f GraphElementMatcher option \<Rightarrow> unit + 'f option" where
  "matcherFilter m =
     (case m of
        None \<Rightarrow> Inr None
      | Some (f, Some err) \<Rightarrow> Inl ()
      | Some (f, None) \<Rightarrow> Inr f)"

definition bulkSearchQuery :: "GraphContext \<Rightarrow> 'f SearchQuery" where
  "bulkSearchQuery t =
     (if \<not> TimePoint t
      then \<lparr>Filter = None, Sort = True, SortBy = ''UpdatedAt''\<rparr>
      else \<lparr>Filter = None, Sort = False, SortBy = []\<rparr>)"

definition GetEdges ::
  "('w, 't, 'f) env \<Rightarrow> GraphContext \<Rightarrow> 'f GraphElementMatcher option \<Rightarrow> ('w, 'f) backend
   \<Rightarrow> 't Edge list \<times> ('w, 'f) backend" where
  "GetEdges env t m b =
     (let index = (if TimeSlice t = None then GetIndexAlias env (world b) else [])
      in case matcherFilter m of
           Inl _ \<Rightarrow> ([], b)
         | Inr filter' \<Rightarrow>
             (let searchQuery = bulkSearchQuery t
              in case searchEdges env
                        \<lparr>SearchQuery = searchQuery,
                         TimeFilter = getTimeFilter env (TimeSlice t),
                         MetadataFilter = filter'\<rparr> index b of
                   (edges, b1) \<Rightarrow>
                     if TimePoint t then (dedupEdges env edges, b1) else (edges, b1)))"

definition GetNodes ::
  "('w, 't, 'f) env \<Rightarrow> GraphContext \<Rightarrow> 'f GraphElementMatcher option \<Rightarrow> ('w, 'f) backend
   \<Rightarrow> 't Node list \<times> ('w, 'f) backend" where
  "GetNodes env t m b =
     (let index = (if TimeSlice t = None then GetIndexAlias env (world b) else [])
      in case matcherFilter m of
           Inl _ \<Rightarrow> ([], b)
         | Inr filter' \<Rightarrow>
             (let searchQuery = bulkSearchQuery t
              in case searchNodes env
                        \<lparr>SearchQuery = searchQuery,
                         TimeFilter = getTimeFilter env (TimeSlice t),
                         MetadataFilter = filter'\<rparr> index b of
                   (nodes, b1) \<Rightarrow>
                     if length nodes > 1 \<and> TimePoint t
                     then (dedupNodes env nodes, b1) else (nodes, b1)))"

definition GetNodeEdges ::
  "('w, 't, 'f) env \<Rightarrow> 't Node \<Rightarrow> GraphContext \<Rightarrow> 'f GraphElementMatcher option
   \<Rightarrow> ('w, 'f) backend \<Rightarrow> 't Edge list \<times> ('w, 'f) backend" where
  "GetNodeEdges env n t m b =
     (let index = (if TimeSlice t = None then GetIndexAlias env (world b) else [])
      in case matcherFilter m of
           Inl _ \<Rightarrow> ([], b)
         | Inr filter' \<Rightarrow>
             (let searchQuery = bulkSearchQuery t;
                  searchQuery = searchQuery\<lparr>Filter := NewFilterForEdge env (ID n) (ID n)\<rparr>
              in case searchEdges env
                        \<lparr>SearchQuery = searchQuery,
                         TimeFilter = getTimeFilter env (TimeSlice t),
                         MetadataFilter = filter'\<rparr> index b of
                   (edges, b1) \<Rightarrow>
                     if length edges > 1 \<and> TimePoint t
                     then (dedupEdges env edges, b1) else (edges, b1)))"

subsection \<open>Creation and index rollover\<close>

text \<open>
  The first two loops of \<open>rollAndDumpTopology\<close> (\<open>archiveNodes\<close>, \<open>archiveEdges\<close>): each element gets \<^verbatim>\<open>time.Now()\<close> as
  its \<open>updatedAt\<close> and is passed to \<open>updateTimes\<close>, whose result is dropped. The
  elements are pointers, so the new \<open>updatedAt\<close> is what the later loops see: the loop
  returns the elements as it left them.
\<close>

fun archiveNodes ::
  "('w, 't, 'f) env \<Rightarrow> 't Node list \<Rightarrow> ('w, 'f) backend \<Rightarrow> 't Node list \<times> ('w, 'f) backend" where
  "archiveNodes env [] b = ([], b)"
| "archiveNodes env (node # nodes) b =
     (case Now env (world b) of
        (now, w) \<Rightarrow>
          (let node' = node\<lparr>updatedAt := now\<rparr>
           in case updateTimes env (NodeElem node') (b\<lparr>world := w\<rparr>) of
                (_, b1) \<Rightarrow>
                  (case archiveNodes env nodes b1 of
                     (nodes', b2) \<Rightarrow> (node' # nodes', b2))))"

fun archiveEdges ::
  "('w, 't, 'f) env \<Rightarrow> 't Edge list \<Rightarrow> ('w, 'f) backend \<Rightarrow> 't Edge list \<times> ('w, 'f) backend" where
  "archiveEdges env [] b = ([], b)"
| "archiveEdges env (edge # edges) b =
     (case Now env (world b) of
        (now, w) \<Rightarrow>
          (let edge' = edge\<lparr>updatedAt := now\<rparr>
           in case updateTimes env (EdgeElem edge') (b\<lparr>world := w\<rparr>) of
                (_, b1) \<Rightarrow>
                  (case archiveEdges env edges b1 of
                     (edges', b2) \<Rightarrow> (edge' # edges', b2))))"

text \<open>
  \<open>archiveCurrent\<close> is \<open>rollAndDumpTopology\<close> up to its call of \<open>RollIndex\<close>: it
  fetches the nodes and the edges (no time slice, no time point, no matcher) and runs the
  two loops above. It returns the fetched elements and the backend it leaves.
\<close>

definition archiveCurrent ::
  "('w, 't, 'f) env \<Rightarrow> ('w, 'f) backend \<Rightarrow> 't Node list \<times> 't Edge list \<times> ('w, 'f) backend" where
  "archiveCurrent env b =
     (case GetNodes env \<lparr>TimeSlice = None, TimePoint = False\<rparr> None b of
        (nodes, b1) \<Rightarrow>
     (case GetEdges env \<lparr>TimeSlice = None, TimePoint = False\<rparr> None b1 of
        (edges, b2) \<Rightarrow>
     (case archiveNodes env nodes
             (emit (Logged DebugLevel
                ''Mark all current nodes and edges as 'archived now' in the old index'' []) b2) of
        (nodes', b3) \<Rightarrow>
     (case archiveEdges env edges b3 of
        (edges', b4) \<Rightarrow> (nodes', edges', b4)))))"

text \<open>
  \<open>createNode\<close> and \<open>createEdge\<close> call \<open>rollAndDumpTopology\<close> when the client asks for a
  rollover, and \<open>rollAndDumpTopology\<close> calls them again for every element it fetched: if
  the client keeps asking, the recursion in the source never ends. The model counts the
  rollovers that may nest: \<open>fuel\<close> is how many more may start inside the present call,
  and \<open>None\<close> is the answer of a call that needed more. \<open>recreateNodes\<close> and
  \<open>recreateEdges\<close> are the last two loops of \<open>rollAndDumpTopology\<close>, which drop the
  results of \<open>createNode\<close> and \<open>createEdge\<close>.

  A result \<open>Some (ok, b)\<close> is the boolean returned and the backend left behind; for
  \<open>rollAndDumpTopology\<close>, \<open>Some (err, b)\<close> has the error returned, \<open>None\<close> for nil.
\<close>

function createNode ::
    "('w, 't, 'f) env \<Rightarrow> nat \<Rightarrow> 't Node \<Rightarrow> ('w, 'f) backend
     \<Rightarrow> (bool \<times> ('w, 'f) backend) option"
  and createEdge ::
    "('w, 't, 'f) env \<Rightarrow> nat \<Rightarrow> 't Edge \<Rightarrow> ('w, 'f) backend
     \<Rightarrow> (bool \<times> ('w, 'f) backend) option"
  and rollAndDumpTopology ::
    "('w, 't, 'f) env \<Rightarrow> nat \<Rightarrow> ('w, 'f) backend
     \<Rightarrow> (error option \<times> ('w, 'f) backend) option"
  and recreateNodes ::
    "('w, 't, 'f) env \<Rightarrow> nat \<Rightarrow> 't Node list \<Rightarrow> ('w, 'f) backend
     \<Rightarrow> ('w, 'f) backend option"
  and recreateEdges ::
    "('w, 't, 'f) env \<Rightarrow> nat \<Rightarrow> 't Edge list \<Rightarrow> ('w, 'f) backend
     \<Rightarrow> ('w, 'f) backend option"
where
  "createNode env fuel n b =
     (let obj = mapNode env n;
          docID = ID n @ ''-'' @ FormatInt (revision n)
      in case clientBulkIndex env ''node'' docID obj b of
           ((shouldRoll, Some err), b1) \<Rightarrow>
             Some (False, emit (Logged ErrorLevel ''Error while adding node %s: %s''
                                  [ID n, err]) b1)
         | ((shouldRoll, None), b1) \<Rightarrow>
             (let b2 = emit (TrackerSet (ID n) (revision n))
                         (b1\<lparr>prevRevision := (prevRevision b1)(ID n \<mapsto> revision n)\<rparr>)
              in if shouldRoll
                 then (case rollAndDumpTopology env fuel b2 of
                         None \<Rightarrow> None
                       | Some (Some err, b3) \<Rightarrow>
                           Some (False, emit (Logged ErrorLevel
                                                ''Error while dumping topology: %s'' [err]) b3)
                       | Some (None, b3) \<Rightarrow> Some (True, b3))
                 else Some (True, b2)))"
| "createEdge env fuel e b =
     (let obj = mapEdge env e;
          docID = ID e @ ''-'' @ FormatInt (revision e)
      in case clientBulkIndex env ''edge'' docID obj b of
           ((shouldRoll, Some err), b1) \<Rightarrow>
             Some (False, emit (Logged ErrorLevel ''Error while adding edge %s: %s''
                                  [ID e, err]) b1)
         | ((shouldRoll, None), b1) \<Rightarrow>
             (let b2 = emit (TrackerSet (ID e) (revision e))
                         (b1\<lparr>prevRevision := (prevRevision b1)(ID e \<mapsto> revision e)\<rparr>)
              in if shouldRoll
                 then (case rollAndDumpTopology env fuel b2 of
                         None \<Rightarrow> None
                       | Some (Some err, b3) \<Rightarrow>
                           Some (False, emit (Logged ErrorLevel
                                                ''Error while dumping topology: %s'' [err]) b3)
                       | Some (None, b3) \<Rightarrow> Some (True, b3))
                 else Some (True, b2)))"
| "rollAndDumpTopology env 0 b = None"
| "rollAndDumpTopology env (Suc fuel) b =
     (case archiveCurrent env b of
        (nodes, edges, b4) \<Rightarrow>
          (case clientRollIndex env (emit (Logged DebugLevel ''Rolling the Index '' []) b4) of
             (Some err, b5) \<Rightarrow> Some (Some err, b5)
           | (None, b5) \<Rightarrow>
               (case recreateNodes env fuel nodes
                       (emit (Logged DebugLevel
                          ''Insert all current nodes and edges to the new index'' []) b5) of
                  None \<Rightarrow> None
                | Some b6 \<Rightarrow>
                    (case recreateEdges env fuel edges b6 of
                       None \<Rightarrow> None
                     | Some b7 \<Rightarrow> Some (None, b7)))))"
| "recreateNodes env fuel [] b = Some b"
| "recreateNodes env fuel (node # nodes) b =
     (case createNode env fuel node b of
        None \<Rightarrow> None
      | Some (_, b1) \<Rightarrow> recreateNodes env fuel nodes b1)"
| "recreateEdges env fuel [] b = Some b"
| "recreateEdges env fuel (edge # edges) b =
     (case createEdge env fuel edge b of
        None \<Rightarrow> None
      | Some (_, b1) \<Rightarrow> recreateEdges env fuel edges b1)"
  by pat_completeness auto
termination
  by (relation "measures
        [\<lambda>x. case x of
                Inl (Inl (env, fuel, n, b)) \<Rightarrow> 3 * fuel + 1
              | Inl (Inr (env, fuel, e, b)) \<Rightarrow> 3 * fuel + 1
              | Inr (Inl (env, fuel, b)) \<Rightarrow> 3 * fuel
              | Inr (Inr (Inl (env, fuel, ns, b))) \<Rightarrow> 3 * fuel + 2
              | Inr (Inr (Inr (env, fuel, es, b))) \<Rightarrow> 3 * fuel + 2,
         \<lambda>x. case x of
                Inr (Inr (Inl (env, fuel, ns, b))) \<Rightarrow> length ns
              | Inr (Inr (Inr (env, fuel, es, b))) \<Rightarrow> length es
              | _ \<Rightarrow> 0]")
     auto

declare createNode.simps [simp del]
declare createEdge.simps [simp del]

definition NodeAdded ::
  "('w, 't, 'f) env \<Rightarrow> nat \<Rightarrow> 't Node \<Rightarrow> ('w, 'f) backend \<Rightarrow> (bool \<times> ('w, 'f) backend) option" where
  "NodeAdded env fuel n b = createNode env fuel n b"

definition EdgeAdded ::
  "('w, 't, 'f) env \<Rightarrow> nat \<Rightarrow> 't Edge \<Rightarrow> ('w, 'f) backend \<Rightarrow> (bool \<times> ('w, 'f) backend) option" where
  "EdgeAdded env fuel e b = createEdge env fuel e b"

definition MetadataUpdated ::
  "('w, 't, 'f) env \<Rightarrow> nat \<Rightarrow> 't element \<Rightarrow> ('w, 'f) backend
   \<Rightarrow> (bool \<times> ('w, 'f) backend) option" where
  "MetadataUpdated env fuel i b =
     (case updateTimes env i b of
        (False, b1) \<Rightarrow> Some (False, b1)
      | (True, b1) \<Rightarrow>
          (case i of
             NodeElem n \<Rightarrow> createNode env fuel n b1
           | EdgeElem e \<Rightarrow> createEdge env fuel e b1
           | OtherElem \<Rightarrow> Some (True, b1)))"

subsection \<open>Reading the trace\<close>

text \<open>\<open>isBulkIndexCall\<close> picks the calls that write a whole document.\<close>

fun isBulkIndexCall :: "'f event \<Rightarrow> bool" where
  "isBulkIndexCall (BulkIndexCall kind docID obj r) = True"
| "isBulkIndexCall _ = False"

text \<open>
  \<open>noCreate b b'\<close>: going from \<open>b\<close> to \<open>b'\<close> the tracker was left alone, the trace only
  grew, and no document was written with \<open>BulkIndex\<close>.
\<close>

definition noCreate :: "('w, 'f) backend \<Rightarrow> ('w, 'f) backend \<Rightarrow> bool" where
  "noCreate b b' \<longleftrightarrow>
     prevRevision b' = prevRevision b
     \<and> prefix (trace b) (trace b')
     \<and> filter isBulkIndexCall (trace b') = filter isBulkIndexCall (trace b)"

section \<open>A store client to run the backend on\<close>

text \<open>
  A small client for concrete runs. Its world is the number of \<open>BulkIndex\<close> calls made so
  far. \<open>stubEnv index update roll nodeHits edgeHits\<close> answers the \<open>w\<close>-th \<open>BulkIndex\<close>
  with \<open>index w\<close>, every \<open>BulkUpdateWithPartialDoc\<close> with \<open>update\<close>, every \<open>RollIndex\<close>
  with \<open>roll\<close>, and every search with the hits given for the kind. Times are epoch
  milliseconds, the zero time is \<open>0\<close>, the clock always shows \<open>1000\<close>; a filter is a
  string. The JSON decoder knows the three sources of \<open>stubSources\<close>; the \<open>Decode\<close>
  methods read \<open>ID\<close> and \<open>Revision\<close>.
\<close>

definition stubSources :: "(string \<times> document) list" where
  "stubSources =
     [(''{ID:a,Revision:0}'', [''ID'' \<mapsto> VString ''a'', ''Revision'' \<mapsto> VInt 0]),
      (''{ID:a,Revision:1}'', [''ID'' \<mapsto> VString ''a'', ''Revision'' \<mapsto> VInt 1]),
      (''{ID:a}'', [''ID'' \<mapsto> VString ''a''])]"

definition stubJSONDecode :: "string \<Rightarrow> error + document" where
  "stubJSONDecode source =
     (case map_of stubSources source of
        None \<Rightarrow> Inl ''invalid character''
      | Some obj \<Rightarrow> Inr obj)"

definition stubDecode ::
  "document \<Rightarrow> (int, 'a) graphElement_scheme \<Rightarrow> error option \<times> (int, 'a) graphElement_scheme" where
  "stubDecode obj el =
     (case obj ''ID'' of
        Some (VString i) \<Rightarrow>
          (case obj ''Revision'' of
             Some (VInt r) \<Rightarrow> (None, el\<lparr>ID := i, revision := r\<rparr>)
           | _ \<Rightarrow> (Some ''no revision'', el\<lparr>ID := i\<rparr>))
      | _ \<Rightarrow> (Some ''no ID'', el))"

definition stubEnv ::
  "(nat \<Rightarrow> bool \<times> error option) \<Rightarrow> error option \<Rightarrow> error option \<Rightarrow> string list \<Rightarrow> string list
   \<Rightarrow> (nat, int, string) env" where
  "stubEnv index update roll nodeHits edgeHits =
     \<lparr>GetIndexAlias = (\<lambda>w. ''live''),
      BulkIndex = (\<lambda>kind docID obj w. (index w, Suc w)),
      BulkUpdateWithPartialDoc = (\<lambda>kind docID obj w. (update, w)),
      RollIndex = (\<lambda>w. (roll, w)),
      Search = (\<lambda>obj q index opts w.
                  ((Some (if obj = ''node'' then nodeHits else edgeHits), None), w)),
      FormatFilter = (\<lambda>f pre. case f of None \<Rightarrow> None | Some s \<Rightarrow> Some (LeafQuery (pre @ s))),
      Now = (\<lambda>w. (1000, w)),
      UnixMillis = (\<lambda>t. t),
      IsZero = (\<lambda>t. t = 0),
      ZeroTime = 0,
      JSONDecode = stubJSONDecode,
      NodeDecode = stubDecode,
      EdgeDecode = stubDecode,
      NewTermStringFilter = (\<lambda>k v. k @ ''='' @ v),
      getTimeFilter = (\<lambda>ts. case ts of None \<Rightarrow> None | Some s \<Rightarrow> Some ''slice''),
      NewFilterForEdge = (\<lambda>p c. Some (''Parent='' @ p @ '' or Child='' @ c)),
      dedupNodes = (\<lambda>nodes. nodes),
      dedupEdges = (\<lambda>edges. edges)\<rparr>"

text \<open>Two nodes, an edge between them, and a backend that has written \<open>a\<close> at revision 0.\<close>

definition nodeA :: "int Node" where
  "nodeA = \<lparr>ID = ''a'', host = ''h'', createdAt = 10, updatedAt = 20, deletedAt = 0,
            metadata = [], revision = 1\<rparr>"

definition nodeB :: "int Node" where
  "nodeB = \<lparr>ID = ''b'', host = ''h'', createdAt = 30, updatedAt = 30, deletedAt = 0,
            metadata = [], revision = 0\<rparr>"

definition edgeA :: "int Edge" where
  "edgeA = \<lparr>ID = ''a'', host = ''h'', createdAt = 10, updatedAt = 20, deletedAt = 0,
            metadata = [], revision = 1, parent = ''p'', child = ''c''\<rparr>"

definition backendA :: "(nat, string) backend" where
  "backendA = \<lparr>prevRevision = [''a'' \<mapsto> 0], world = 0, trace = []\<rparr>"

text \<open>
  The stores used below: \<open>quietStore\<close> accepts everything and never asks for a rollover;
  \<open>downStore\<close> refuses every partial update; \<open>fullStore\<close> asks for a rollover at every
  \<open>BulkIndex\<close> and cannot roll; \<open>flakyStore\<close> holds node \<open>a\<close>, accepts the first
  \<open>BulkIndex\<close> asking for a rollover, rolls, and refuses every partial update and every
  later \<open>BulkIndex\<close>; \<open>historyStore\<close> returns two revisions of \<open>a\<close> in ascending order;
  \<open>garbledStore\<close> returns a hit that is not JSON and one without a revision before a
  good one; \<open>brokenTailStore\<close> returns revisions 0 and 1 of \<open>a\<close> and then a hit that is
  not JSON; \<open>partialTailStore\<close> returns revisions 0 and 1 of \<open>a\<close> and then a hit without a
  revision.
\<close>

definition quietStore :: "(nat, int, string) env" where
  "quietStore = stubEnv (\<lambda>w. (False, None)) None None [] []"

definition downStore :: "(nat, int, string) env" where
  "downStore = stubEnv (\<lambda>w. (False, None)) (Some ''down'') None [] []"

definition fullStore :: "(nat, int, string) env" where
  "fullStore = stubEnv (\<lambda>w. (True, None)) None (Some ''no space'') [] []"

definition flakyStore :: "(nat, int, string) env" where
  "flakyStore =
     stubEnv (\<lambda>w. (w = 0, if w = 0 then None else Some ''rejected'')) (Some ''unavailable'') None
       [''{ID:a,Revision:0}''] []"

definition historyStore :: "(nat, int, string) env" where
  "historyStore =
     stubEnv (\<lambda>w. (False, None)) None None
       [''{ID:a,Revision:0}'', ''{ID:a,Revision:1}'']
       [''{ID:a,Revision:0}'', ''{ID:a,Revision:1}'']"

definition garbledStore :: "(nat, int, string) env" where
  "garbledStore =
     stubEnv (\<lambda>w. (False, None)) None None
       [''not json'', ''{ID:a}'', ''{ID:a,Revision:1}'']
       [''not json'', ''{ID:a}'', ''{ID:a,Revision:1}'']"

definition brokenTailStore :: "(nat, int, string) env" where
  "brokenTailStore =
     stubEnv (\<lambda>w. (False, None)) None None
       [''{ID:a,Revision:0}'', ''{ID:a,Revision:1}'', ''not json'']
       [''{ID:a,Revision:0}'', ''{ID:a,Revision:1}'', ''not json'']"

definition partialTailStore :: "(nat, int, string) env" where
  "partialTailStore =
     stubEnv (\<lambda>w. (False, None)) None None
       [''{ID:a,Revision:0}'', ''{ID:a,Revision:1}'', ''{ID:a}'']
       [''{ID:a,Revision:0}'', ''{ID:a,Revision:1}'', ''{ID:a}'']"

section \<open>Properties of the port map\<close>

text \<open>
  C10. On a nil receiver \<open>TCPApplication\<close> and \<open>UDPApplication\<close> return the empty string
  and false for every pair of ports. On a non-nil receiver, when the protocol map holds
  both the source port and the destination port, the name found under the source port is
  the one returned, with true.
\<close>

theorem application_nil_and_src_precedence:
  "TCPApplication None srcPort dstPort = ('''', False)
   \<and> UDPApplication None srcPort dstPort = ('''', False)
   \<and> (TCP m srcPort = Some s \<and> TCP m dstPort = Some d
        \<longrightarrow> TCPApplication (Some m) srcPort dstPort = (s, True))
   \<and> (UDP m srcPort = Some s \<and> UDP m dstPort = Some d
        \<longrightarrow> UDPApplication (Some m) srcPort dstPort = (s, True))"
  by (simp add: TCPApplication_def UDPApplication_def application_def)

theorem application_nil_and_src_precedence_witness:
  "TCP \<lparr>UDP = [53 \<mapsto> ''DNS'', 5353 \<mapsto> ''MDNS''], TCP = [80 \<mapsto> ''HTTP'', 8080 \<mapsto> ''PROXY'']\<rparr> 80
     = Some ''HTTP''
   \<and> TCP \<lparr>UDP = [53 \<mapsto> ''DNS'', 5353 \<mapsto> ''MDNS''], TCP = [80 \<mapsto> ''HTTP'', 8080 \<mapsto> ''PROXY'']\<rparr> 8080
     = Some ''PROXY''
   \<and> TCPApplication
       (Some \<lparr>UDP = [53 \<mapsto> ''DNS'', 5353 \<mapsto> ''MDNS''], TCP = [80 \<mapsto> ''HTTP'', 8080 \<mapsto> ''PROXY'']\<rparr>)
       80 8080 = (''HTTP'', True)
   \<and> UDPApplication
       (Some \<lparr>UDP = [53 \<mapsto> ''DNS'', 5353 \<mapsto> ''MDNS''], TCP = [80 \<mapsto> ''HTTP'', 8080 \<mapsto> ''PROXY'']\<rparr>)
       5353 53 = (''MDNS'', True)"
  using application_nil_and_src_precedence
    [of 80 8080
        "\<lparr>UDP = [53 \<mapsto> ''DNS'', 5353 \<mapsto> ''MDNS''], TCP = [80 \<mapsto> ''HTTP'', 8080 \<mapsto> ''PROXY'']\<rparr>"
        "''HTTP''" "''PROXY''"]
    application_nil_and_src_precedence
    [of 5353 53
        "\<lparr>UDP = [53 \<mapsto> ''DNS'', 5353 \<mapsto> ''MDNS''], TCP = [80 \<mapsto> ''HTTP'', 8080 \<mapsto> ''PROXY'']\<rparr>"
        "''MDNS''" "''DNS''"]
  by simp

section \<open>Helper facts\<close>

subsection \<open>What the archival and the queries leave alone\<close>

lemma noCreate_refl: "noCreate b b"
  by (simp add: noCreate_def)

lemma noCreate_trans: "noCreate b b1 \<Longrightarrow> noCreate b1 b2 \<Longrightarrow> noCreate b b2"
  by (auto simp add: noCreate_def)

lemma noCreate_emit: "\<not> isBulkIndexCall ev \<Longrightarrow> noCreate b (emit ev b)"
  by (simp add: noCreate_def emit_def)

lemma noCreate_emit_world: "\<not> isBulkIndexCall ev \<Longrightarrow> noCreate b (emit ev (b\<lparr>world := w\<rparr>))"
  by (simp add: noCreate_def emit_def)

lemma noCreate_world: "noCreate b (b\<lparr>world := w\<rparr>)"
  by (simp add: noCreate_def)

lemma updateTimes_noCreate: "noCreate b (snd (updateTimes env i b))"
  by (auto simp add: updateTimes_def clientBulkUpdateWithPartialDoc_def Let_def
        split: option.splits element.splits prod.splits sum.splits
        intro!: noCreate_emit noCreate_emit_world
        intro: noCreate_trans[OF noCreate_emit_world noCreate_emit])

lemma Query_noCreate: "noCreate b (snd (Query env obj tsq index b))"
  by (auto simp add: Query_def clientSearch_def Let_def split: prod.splits
        intro!: noCreate_emit_world)

lemma decodeNodes_noCreate: "noCreate b (snd (decodeNodes env hits nodes b))"
proof (induction hits arbitrary: nodes b)
  case Nil
  show ?case by (simp add: noCreate_refl)
next
  case (Cons d ds)
  show ?case
  proof (cases "hitToNode env d (zeroNode env)")
    case (Pair err node)
    show ?thesis
    proof (cases err)
      case None
      with Pair show ?thesis by (simp add: Cons.IH)
    next
      case (Some e)
      have "noCreate b (emit (Logged DebugLevel ''Failed to unmarshal node: %+v'' [d]) b)"
        by (rule noCreate_emit) simp
      with Pair Some show ?thesis
        by (auto intro: noCreate_trans Cons.IH)
    qed
  qed
qed

lemma decodeEdges_noCreate: "noCreate b (snd (decodeEdges env hits edges b))"
proof (induction hits arbitrary: edges b)
  case Nil
  show ?case by (simp add: noCreate_refl)
next
  case (Cons d ds)
  show ?case
  proof (cases "hitToEdge env d (zeroEdge env)")
    case (Pair err edge)
    show ?thesis
    proof (cases err)
      case None
      with Pair show ?thesis by (simp add: Cons.IH)
    next
      case (Some e)
      have "noCreate b (emit (Logged DebugLevel ''Failed to unmarshal edge: %+v'' [d]) b)"
        by (rule noCreate_emit) simp
      with Pair Some show ?thesis
        by (auto intro: noCreate_trans Cons.IH)
    qed
  qed
qed

lemma searchNodes_noCreate: "noCreate b (snd (searchNodes env tsq index b))"
proof -
  obtain out err b1 where q: "Query env ''node'' tsq index b = ((out, err), b1)"
    by (metis prod.exhaust)
  have b1: "noCreate b b1" using Query_noCreate[of b env "''node''" tsq index] q by simp
  show ?thesis
    using q b1
    by (auto simp add: searchNodes_def split: option.splits
          intro: noCreate_trans[OF b1 noCreate_emit] noCreate_trans[OF b1 decodeNodes_noCreate])
qed

lemma searchEdges_noCreate: "noCreate b (snd (searchEdges env tsq index b))"
proof -
  obtain out err b1 where q: "Query env ''edge'' tsq index b = ((out, err), b1)"
    by (metis prod.exhaust)
  have b1: "noCreate b b1" using Query_noCreate[of b env "''edge''" tsq index] q by simp
  show ?thesis
    using q b1
    by (auto simp add: searchEdges_def split: option.splits
          intro: noCreate_trans[OF b1 noCreate_emit] noCreate_trans[OF b1 decodeEdges_noCreate])
qed

lemma GetNodes_noCreate: "noCreate b (snd (GetNodes env t m b))"
  using searchNodes_noCreate[of b env]
  by (auto simp add: GetNodes_def Let_def noCreate_refl split: sum.splits prod.splits)
     (metis snd_conv)+

lemma GetEdges_noCreate: "noCreate b (snd (GetEdges env t m b))"
  using searchEdges_noCreate[of b env]
  by (auto simp add: GetEdges_def Let_def noCreate_refl split: sum.splits prod.splits)
     (metis snd_conv)+

lemma archiveNodes_noCreate: "noCreate b (snd (archiveNodes env nodes b))"
proof (induction nodes arbitrary: b)
  case Nil
  show ?case by (simp add: noCreate_refl)
next
  case (Cons node nodes)
  obtain now w where nw: "Now env (world b) = (now, w)" by (metis prod.exhaust)
  obtain ok b1 where u: "updateTimes env (NodeElem (node\<lparr>updatedAt := now\<rparr>)) (b\<lparr>world := w\<rparr>) = (ok, b1)"
    by (metis prod.exhaust)
  have "noCreate (b\<lparr>world := w\<rparr>) b1"
    using updateTimes_noCreate[of "b\<lparr>world := w\<rparr>" env "NodeElem (node\<lparr>updatedAt := now\<rparr>)"] u by simp
  then have "noCreate b b1" by (rule noCreate_trans[OF noCreate_world])
  then have "noCreate b (snd (archiveNodes env nodes b1))"
    by (rule noCreate_trans) (rule Cons.IH)
  then show ?case using nw u by (auto simp add: Let_def split: prod.splits)
qed

lemma archiveEdges_noCreate: "noCreate b (snd (archiveEdges env edges b))"
proof (induction edges arbitrary: b)
  case Nil
  show ?case by (simp add: noCreate_refl)
next
  case (Cons edge edges)
  obtain now w where nw: "Now env (world b) = (now, w)" by (metis prod.exhaust)
  obtain ok b1 where u: "updateTimes env (EdgeElem (edge\<lparr>updatedAt := now\<rparr>)) (b\<lparr>world := w\<rparr>) = (ok, b1)"
    by (metis prod.exhaust)
  have "noCreate (b\<lparr>world := w\<rparr>) b1"
    using updateTimes_noCreate[of "b\<lparr>world := w\<rparr>" env "EdgeElem (edge\<lparr>updatedAt := now\<rparr>)"] u by simp
  then have "noCreate b b1" by (rule noCreate_trans[OF noCreate_world])
  then have "noCreate b (snd (archiveEdges env edges b1))"
    by (rule noCreate_trans) (rule Cons.IH)
  then show ?case using nw u by (auto simp add: Let_def split: prod.splits)
qed

lemma archiveCurrent_noCreate: "noCreate b (snd (snd (archiveCurrent env b)))"
proof -
  obtain nodes b1 where g1: "GetNodes env \<lparr>TimeSlice = None, TimePoint = False\<rparr> None b = (nodes, b1)"
    by (metis prod.exhaust)
  obtain edges b2 where g2: "GetEdges env \<lparr>TimeSlice = None, TimePoint = False\<rparr> None b1 = (edges, b2)"
    by (metis prod.exhaust)
  let ?b2 = "emit (Logged DebugLevel
                ''Mark all current nodes and edges as 'archived now' in the old index'' []) b2"
  obtain nodes' b3 where a1: "archiveNodes env nodes ?b2 = (nodes', b3)" by (metis prod.exhaust)
  obtain edges' b4 where a2: "archiveEdges env edges b3 = (edges', b4)" by (metis prod.exhaust)
  have "noCreate b b1" using GetNodes_noCreate[of b env _ None] g1 by (metis snd_conv)
  moreover have "noCreate b1 b2" using GetEdges_noCreate[of b1 env _ None] g2 by (metis snd_conv)
  moreover have "noCreate b2 ?b2" by (rule noCreate_emit) simp
  moreover have "noCreate ?b2 b3" using archiveNodes_noCreate[of ?b2 env nodes] a1 by simp
  moreover have "noCreate b3 b4" using archiveEdges_noCreate[of b3 env edges] a2 by simp
  ultimately have "noCreate b b4" by (blast intro: noCreate_trans)
  then show ?thesis using g1 g2 a1 a2 by (simp add: archiveCurrent_def)
qed

lemma decodeNodes_length:
  "length (fst (decodeNodes env hits nodes b)) = length nodes + length hits"
  by (induction hits arbitrary: nodes b) (auto split: prod.splits option.splits)

lemma decodeEdges_length:
  "length (fst (decodeEdges env hits edges b)) = length edges + length hits"
  by (induction hits arbitrary: edges b) (auto split: prod.splits option.splits)

subsection \<open>Creation and rollover only append to the trace\<close>








subsection \<open>The creation functions, step by step\<close>

lemma backend_update_order:
  "b\<lparr>world := w, prevRevision := p\<rparr> = b\<lparr>prevRevision := p, world := w\<rparr>"
  by simp

lemma createNode_unfold:
  "createNode env fuel n b =
     (case BulkIndex env ''node'' (ID n @ ''-'' @ FormatInt (revision n)) (mapNode env n) (world b) of
        ((sr, Some err), w) \<Rightarrow>
          Some (False,
            b\<lparr>world := w,
              trace := trace b @
                [BulkIndexCall ''node'' (ID n @ ''-'' @ FormatInt (revision n)) (mapNode env n)
                   (sr, Some err),
                 Logged ErrorLevel ''Error while adding node %s: %s'' [ID n, err]]\<rparr>)
      | ((sr, None), w) \<Rightarrow>
          if sr
          then (case rollAndDumpTopology env fuel
                       (b\<lparr>prevRevision := (prevRevision b)(ID n \<mapsto> revision n),
                          world := w,
                          trace := trace b @
                            [BulkIndexCall ''node'' (ID n @ ''-'' @ FormatInt (revision n))
                               (mapNode env n) (True, None),
                             TrackerSet (ID n) (revision n)]\<rparr>) of
                  None \<Rightarrow> None
                | Some (Some err, b3) \<Rightarrow>
                    Some (False,
                      b3\<lparr>trace := trace b3 @
                           [Logged ErrorLevel ''Error while dumping topology: %s'' [err]]\<rparr>)
                | Some (None, b3) \<Rightarrow> Some (True, b3))
          else Some (True,
                 b\<lparr>prevRevision := (prevRevision b)(ID n \<mapsto> revision n),
                   world := w,
                   trace := trace b @
                     [BulkIndexCall ''node'' (ID n @ ''-'' @ FormatInt (revision n))
                        (mapNode env n) (False, None),
                      TrackerSet (ID n) (revision n)]\<rparr>))"
  by (simp add: createNode.simps clientBulkIndex_def emit_def Let_def backend_update_order
        split: prod.splits option.splits)

lemma createEdge_unfold:
  "createEdge env fuel e b =
     (case BulkIndex env ''edge'' (ID e @ ''-'' @ FormatInt (revision e)) (mapEdge env e) (world b) of
        ((sr, Some err), w) \<Rightarrow>
          Some (False,
            b\<lparr>world := w,
              trace := trace b @
                [BulkIndexCall ''edge'' (ID e @ ''-'' @ FormatInt (revision e)) (mapEdge env e)
                   (sr, Some err),
                 Logged ErrorLevel ''Error while adding edge %s: %s'' [ID e, err]]\<rparr>)
      | ((sr, None), w) \<Rightarrow>
          if sr
          then (case rollAndDumpTopology env fuel
                       (b\<lparr>prevRevision := (prevRevision b)(ID e \<mapsto> revision e),
                          world := w,
                          trace := trace b @
                            [BulkIndexCall ''edge'' (ID e @ ''-'' @ FormatInt (revision e))
                               (mapEdge env e) (True, None),
                             TrackerSet (ID e) (revision e)]\<rparr>) of
                  None \<Rightarrow> None
                | Some (Some err, b3) \<Rightarrow>
                    Some (False,
                      b3\<lparr>trace := trace b3 @
                           [Logged ErrorLevel ''Error while dumping topology: %s'' [err]]\<rparr>)
                | Some (None, b3) \<Rightarrow> Some (True, b3))
          else Some (True,
                 b\<lparr>prevRevision := (prevRevision b)(ID e \<mapsto> revision e),
                   world := w,
                   trace := trace b @
                     [BulkIndexCall ''edge'' (ID e @ ''-'' @ FormatInt (revision e))
                        (mapEdge env e) (False, None),
                      TrackerSet (ID e) (revision e)]\<rparr>))"
  by (simp add: createEdge.simps clientBulkIndex_def emit_def Let_def backend_update_order
        split: prod.splits option.splits)

lemma rollAndDumpTopology_unfold:
  "rollAndDumpTopology env (Suc fuel) b =
     (case archiveCurrent env b of
        (nodes, edges, b4) \<Rightarrow>
          (case RollIndex env (world b4) of
             (Some err, w) \<Rightarrow>
               Some (Some err,
                 b4\<lparr>world := w,
                    trace := trace b4 @
                      [Logged DebugLevel ''Rolling the Index '' [], RollIndexCall (Some err)]\<rparr>)
           | (None, w) \<Rightarrow>
               (case recreateNodes env fuel nodes
                       (b4\<lparr>world := w,
                          trace := trace b4 @
                            [Logged DebugLevel ''Rolling the Index '' [], RollIndexCall None,
                             Logged DebugLevel
                               ''Insert all current nodes and edges to the new index'' []]\<rparr>) of
                  None \<Rightarrow> None
                | Some b6 \<Rightarrow>
                    (case recreateEdges env fuel edges b6 of
                       None \<Rightarrow> None
                     | Some b7 \<Rightarrow> Some (None, b7)))))"
  by (simp add: clientRollIndex_def emit_def split: prod.splits option.splits)

lemma rollAndDumpTopology_error:
  assumes "rollAndDumpTopology env fuel b = Some (Some err, b')"
  shows "\<exists>nodes edges b4 w.
           archiveCurrent env b = (nodes, edges, b4)
           \<and> RollIndex env (world b4) = (Some err, w)
           \<and> b' = b4\<lparr>world := w,
                     trace := trace b4 @
                       [Logged DebugLevel ''Rolling the Index '' [], RollIndexCall (Some err)]\<rparr>"
proof (cases fuel)
  case 0
  with assms show ?thesis by simp
next
  case (Suc f)
  with assms show ?thesis
    by (auto simp add: rollAndDumpTopology_unfold simp del: rollAndDumpTopology.simps
          split: prod.splits option.splits)
qed







subsection \<open>Definitions to unfold in concrete runs\<close>

lemmas run_defs =
  quietStore_def downStore_def fullStore_def flakyStore_def historyStore_def garbledStore_def
  brokenTailStore_def partialTailStore_def
  stubEnv_def stubJSONDecode_def stubSources_def stubDecode_def
  nodeA_def nodeB_def edgeA_def backendA_def
  emit_def clientBulkIndex_def clientBulkUpdateWithPartialDoc_def clientRollIndex_def
  clientSearch_def FormatInt_def digits10.simps Clone_def
  mapElement_def mapNode_def mapEdge_def hitToNode_def hitToEdge_def zeroNode_def zeroEdge_def
  updateTimes_def NodeDeleted_def EdgeDeleted_def Query_def searchNodes_def searchEdges_def
  GetNode_def GetEdge_def matcherFilter_def bulkSearchQuery_def GetNodes_def GetEdges_def
  GetNodeEdges_def archiveCurrent_def createNode.simps createEdge.simps
  NodeAdded_def EdgeAdded_def MetadataUpdated_def Let_def

section \<open>Archival and deletion\<close>

text \<open>
  C6. When the tracker has no entry for the ID of a node or an edge, \<open>updateTimes\<close>
  returns false and leaves the backend as it was but for one log line: no store call, no
  tracker entry made up. When the tracker holds \<open>prev\<close>, the one store call is the partial
  update of document \<open>ID-prev\<close> that sets \<open>ArchivedAt\<close> to the element's \<open>updatedAt\<close> in
  milliseconds, and the result is whether that call succeeded.
\<close>

theorem updateTimes_tracker_miss_and_hit:
  "(prevRevision b (ID n) = None \<longrightarrow>
      updateTimes env (NodeElem n) b =
        (False, b\<lparr>trace := trace b @
                   [Logged ErrorLevel ''Update from an unknow revision, node: %s'' [ID n]]\<rparr>))
   \<and> (prevRevision b (ID e) = None \<longrightarrow>
      updateTimes env (EdgeElem e) b =
        (False, b\<lparr>trace := trace b @
                   [Logged ErrorLevel ''Update from an unknow revision, edge: %s'' [ID e]]\<rparr>))
   \<and> (prevRevision b (ID n) = Some prev \<longrightarrow>
      updateTimes env (NodeElem n) b =
        (case BulkUpdateWithPartialDoc env ''node'' (ID n @ ''-'' @ FormatInt prev)
                [''ArchivedAt'' \<mapsto> VInt (UnixMillis env (updatedAt n))] (world b) of
           (r, w) \<Rightarrow>
             (r = None,
              b\<lparr>world := w,
                trace := trace b @
                  BulkUpdateWithPartialDocCall ''node'' (ID n @ ''-'' @ FormatInt prev)
                    [''ArchivedAt'' \<mapsto> VInt (UnixMillis env (updatedAt n))] r
                  # (case r of
                       None \<Rightarrow> []
                     | Some err \<Rightarrow>
                         [Logged ErrorLevel ''Error while archiving %s %s: %s''
                            [''node'', ID n @ ''-'' @ FormatInt prev, err]])\<rparr>)))
   \<and> (prevRevision b (ID e) = Some prev \<longrightarrow>
      updateTimes env (EdgeElem e) b =
        (case BulkUpdateWithPartialDoc env ''edge'' (ID e @ ''-'' @ FormatInt prev)
                [''ArchivedAt'' \<mapsto> VInt (UnixMillis env (updatedAt e))] (world b) of
           (r, w) \<Rightarrow>
             (r = None,
              b\<lparr>world := w,
                trace := trace b @
                  BulkUpdateWithPartialDocCall ''edge'' (ID e @ ''-'' @ FormatInt prev)
                    [''ArchivedAt'' \<mapsto> VInt (UnixMillis env (updatedAt e))] r
                  # (case r of
                       None \<Rightarrow> []
                     | Some err \<Rightarrow>
                         [Logged ErrorLevel ''Error while archiving %s %s: %s''
                            [''edge'', ID e @ ''-'' @ FormatInt prev, err]])\<rparr>)))"
  by (simp add: updateTimes_def emit_def clientBulkUpdateWithPartialDoc_def
        split: option.splits prod.splits)

text \<open>
  Runs of \<open>updateTimes\<close> on the stub client: a node and an edge unknown to the tracker, a
  known node, and a known edge when the store is down.
\<close>

theorem updateTimes_tracker_miss_and_hit_witness:
  "prevRevision backendA (ID nodeB) = None
   \<and> updateTimes quietStore (NodeElem nodeB) backendA =
       (False, backendA\<lparr>trace :=
          [Logged ErrorLevel ''Update from an unknow revision, node: %s'' [''b'']]\<rparr>)
   \<and> prevRevision backendA (ID (edgeA\<lparr>ID := ''z''\<rparr>)) = None
   \<and> updateTimes quietStore
         (EdgeElem (edgeA\<lparr>ID := ''z''\<rparr>)) backendA =
       (False, backendA\<lparr>trace :=
          [Logged ErrorLevel ''Update from an unknow revision, edge: %s'' [''z'']]\<rparr>)
   \<and> prevRevision backendA (ID nodeA) = Some 0
   \<and> updateTimes quietStore (NodeElem nodeA) backendA =
       (True, backendA\<lparr>trace :=
          [BulkUpdateWithPartialDocCall ''node'' ''a-0'' [''ArchivedAt'' \<mapsto> VInt 20] None]\<rparr>)
   \<and> prevRevision backendA (ID edgeA) = Some 0
   \<and> updateTimes downStore
         (EdgeElem edgeA) backendA =
       (False, backendA\<lparr>trace :=
          [BulkUpdateWithPartialDocCall ''edge'' ''a-0'' [''ArchivedAt'' \<mapsto> VInt 20]
             (Some ''down''),
           Logged ErrorLevel ''Error while archiving %s %s: %s''
             [''edge'', ''a-0'', ''down'']]\<rparr>)"
  using updateTimes_tracker_miss_and_hit
          [where b = backendA and n = nodeB and e = "edgeA\<lparr>ID := ''z''\<rparr>"
             and env = quietStore]
        updateTimes_tracker_miss_and_hit
          [where b = backendA and n = nodeA and e = edgeA and prev = 0
             and env = quietStore]
        updateTimes_tracker_miss_and_hit
          [where b = backendA and n = nodeA and e = edgeA and prev = 0
             and env = downStore]
  by (simp add: quietStore_def downStore_def stubEnv_def nodeA_def nodeB_def edgeA_def
        backendA_def FormatInt_def digits10.simps)

text \<open>
  C4. \<open>NodeDeleted\<close> and \<open>EdgeDeleted\<close> first remove the ID from the tracker, then issue
  one partial update of document \<open>ID-revision\<close> whose \<open>DeletedAt\<close> and \<open>ArchivedAt\<close> are
  the same value, the deletion time in milliseconds. The result is whether the store
  accepted it; the ID is gone from the tracker in both cases.
\<close>

theorem deleted_tracker_then_partial_update:
  "NodeDeleted env n b =
     (case BulkUpdateWithPartialDoc env ''node'' (ID n @ ''-'' @ FormatInt (revision n))
             [''DeletedAt'' \<mapsto> VInt (UnixMillis env (deletedAt n)),
              ''ArchivedAt'' \<mapsto> VInt (UnixMillis env (deletedAt n))] (world b) of
        (r, w) \<Rightarrow>
          (r = None,
           b\<lparr>prevRevision := (prevRevision b)(ID n := None),
             world := w,
             trace := trace b @
               TrackerDelete (ID n)
               # BulkUpdateWithPartialDocCall ''node'' (ID n @ ''-'' @ FormatInt (revision n))
                   [''DeletedAt'' \<mapsto> VInt (UnixMillis env (deletedAt n)),
                    ''ArchivedAt'' \<mapsto> VInt (UnixMillis env (deletedAt n))] r
               # (case r of
                    None \<Rightarrow> []
                  | Some err \<Rightarrow>
                      [Logged ErrorLevel ''Error while marking node as deleted %s: %s''
                         [ID n @ ''-'' @ FormatInt (revision n), err]])\<rparr>))
   \<and> EdgeDeleted env e b =
     (case BulkUpdateWithPartialDoc env ''edge'' (ID e @ ''-'' @ FormatInt (revision e))
             [''DeletedAt'' \<mapsto> VInt (UnixMillis env (deletedAt e)),
              ''ArchivedAt'' \<mapsto> VInt (UnixMillis env (deletedAt e))] (world b) of
        (r, w) \<Rightarrow>
          (r = None,
           b\<lparr>prevRevision := (prevRevision b)(ID e := None),
             world := w,
             trace := trace b @
               TrackerDelete (ID e)
               # BulkUpdateWithPartialDocCall ''edge'' (ID e @ ''-'' @ FormatInt (revision e))
                   [''DeletedAt'' \<mapsto> VInt (UnixMillis env (deletedAt e)),
                    ''ArchivedAt'' \<mapsto> VInt (UnixMillis env (deletedAt e))] r
               # (case r of
                    None \<Rightarrow> []
                  | Some err \<Rightarrow>
                      [Logged ErrorLevel ''Error while marking edge as deleted %s: %s''
                         [ID e @ ''-'' @ FormatInt (revision e), err]])\<rparr>))
   \<and> prevRevision (snd (NodeDeleted env n b)) (ID n) = None
   \<and> prevRevision (snd (EdgeDeleted env e b)) (ID e) = None"
  by (simp add: NodeDeleted_def EdgeDeleted_def emit_def clientBulkUpdateWithPartialDoc_def
        Let_def split: option.splits prod.splits)

text \<open>
  A node deleted with the store up, an edge deleted with the store down: the tracker is
  empty after both.
\<close>

theorem deleted_tracker_then_partial_update_witness:
  "NodeDeleted quietStore (nodeA\<lparr>deletedAt := 40\<rparr>) backendA =
     (True,
      backendA\<lparr>prevRevision := [''a'' \<mapsto> 0](''a'' := None),
        trace :=
          [TrackerDelete ''a'',
           BulkUpdateWithPartialDocCall ''node'' ''a-1''
             [''DeletedAt'' \<mapsto> VInt 40, ''ArchivedAt'' \<mapsto> VInt 40] None]\<rparr>)
   \<and> EdgeDeleted downStore
        (edgeA\<lparr>deletedAt := 40\<rparr>) backendA =
     (False,
      backendA\<lparr>prevRevision := [''a'' \<mapsto> 0](''a'' := None),
        trace :=
          [TrackerDelete ''a'',
           BulkUpdateWithPartialDocCall ''edge'' ''a-1''
             [''DeletedAt'' \<mapsto> VInt 40, ''ArchivedAt'' \<mapsto> VInt 40] (Some ''down''),
           Logged ErrorLevel ''Error while marking edge as deleted %s: %s''
             [''a-1'', ''down'']]\<rparr>)"
  using deleted_tracker_then_partial_update
          [where b = backendA and n = "nodeA\<lparr>deletedAt := 40\<rparr>"
             and e = "edgeA\<lparr>deletedAt := 40\<rparr>"
             and env = quietStore]
        deleted_tracker_then_partial_update
          [where b = backendA and n = "nodeA\<lparr>deletedAt := 40\<rparr>"
             and e = "edgeA\<lparr>deletedAt := 40\<rparr>"
             and env = downStore]
  by (simp add: quietStore_def downStore_def stubEnv_def nodeA_def nodeB_def edgeA_def
        backendA_def FormatInt_def digits10.simps)

section \<open>Metadata updates and creation\<close>





section \<open>Index rollover\<close>

text \<open>
  C2, as stated, fails. On \<open>flakyStore\<close> the creation of node \<open>b\<close> triggers a rollover in
  which archiving the fetched node \<open>a\<close> fails (the partial update is refused) and
  re-creating it fails too (\<open>BulkIndex\<close> is refused); the rollover runs to its end and
  \<open>createNode\<close> returns true.
\<close>

theorem rollover_failure_counterexample:
  "createNode flakyStore 1 nodeB backendA =
   Some (True,
     \<lparr>prevRevision = [''a'' \<mapsto> 0, ''b'' \<mapsto> 0], world = 2,
      trace =
        [BulkIndexCall ''node'' ''b-0'' (mapNode flakyStore nodeB) (True, None),
         TrackerSet ''b'' 0,
         SearchCall ''node'' (BoolQuery []) ''live''
           \<lparr>Filter = None, Sort = True, SortBy = ''UpdatedAt''\<rparr>
           (Some [''{ID:a,Revision:0}''], None),
         SearchCall ''edge'' (BoolQuery []) ''live''
           \<lparr>Filter = None, Sort = True, SortBy = ''UpdatedAt''\<rparr> (Some [], None),
         Logged DebugLevel
           ''Mark all current nodes and edges as 'archived now' in the old index'' [],
         BulkUpdateWithPartialDocCall ''node'' ''a-0'' [''ArchivedAt'' \<mapsto> VInt 1000]
           (Some ''unavailable''),
         Logged ErrorLevel ''Error while archiving %s %s: %s'' [''node'', ''a-0'', ''unavailable''],
         Logged DebugLevel ''Rolling the Index '' [],
         RollIndexCall None,
         Logged DebugLevel ''Insert all current nodes and edges to the new index'' [],
         BulkIndexCall ''node'' ''a-0''
           (mapNode flakyStore
              \<lparr>ID = ''a'', host = [], createdAt = 0, updatedAt = 1000, deletedAt = 0,
               metadata = [], revision = 0\<rparr>)
           (False, Some ''rejected''),
         Logged ErrorLevel ''Error while adding node %s: %s'' [''a'', ''rejected'']]\<rparr>)"
  by (simp add: run_defs)

text \<open>
  C2, amended. When \<open>RollIndex\<close> fails, \<open>rollAndDumpTopology\<close> returns its error at once
  (any fuel that lets the rollover start is enough), having written no document since
  it started. An error returned by \<open>rollAndDumpTopology\<close> is always the error of its
  \<open>RollIndex\<close> call, the last call it made. The \<open>createNode\<close> or \<open>createEdge\<close> that
  started the rollover then returns false, and so does \<open>MetadataUpdated\<close>, which returns
  what they return.
\<close>

theorem rollover_aborts_when_RollIndex_fails:
  "(archiveCurrent env b = (nodes, edges, b_arch) \<and> RollIndex env (world b_arch) = (Some err, w) \<longrightarrow>
      rollAndDumpTopology env (Suc fuel) b =
        Some (Some err,
          b_arch\<lparr>world := w,
             trace := trace b_arch @
               [Logged DebugLevel ''Rolling the Index '' [], RollIndexCall (Some err)]\<rparr>)
      \<and> filter isBulkIndexCall (trace b_arch) = filter isBulkIndexCall (trace b))
   \<and> (rollAndDumpTopology env fuel' b = Some (Some err, b_fail) \<longrightarrow>
        (\<exists>evs. trace b_fail = trace b @ evs @ [RollIndexCall (Some err)]
               \<and> filter isBulkIndexCall evs = []))
   \<and> (BulkIndex env ''node'' (ID n @ ''-'' @ FormatInt (revision n)) (mapNode env n) (world b_pre)
        = ((True, None), w_idx)
      \<and> rollAndDumpTopology env fuel'
           (b_pre\<lparr>prevRevision := (prevRevision b_pre)(ID n \<mapsto> revision n),
               world := w_idx,
               trace := trace b_pre @
                 [BulkIndexCall ''node'' (ID n @ ''-'' @ FormatInt (revision n)) (mapNode env n)
                    (True, None),
                  TrackerSet (ID n) (revision n)]\<rparr>) = Some (Some err, b_fail) \<longrightarrow>
        createNode env fuel' n b_pre =
          Some (False,
            b_fail\<lparr>trace := trace b_fail @
                 [Logged ErrorLevel ''Error while dumping topology: %s'' [err]]\<rparr>))
   \<and> (BulkIndex env ''edge'' (ID e @ ''-'' @ FormatInt (revision e)) (mapEdge env e) (world b_pre)
        = ((True, None), w_idx)
      \<and> rollAndDumpTopology env fuel'
           (b_pre\<lparr>prevRevision := (prevRevision b_pre)(ID e \<mapsto> revision e),
               world := w_idx,
               trace := trace b_pre @
                 [BulkIndexCall ''edge'' (ID e @ ''-'' @ FormatInt (revision e)) (mapEdge env e)
                    (True, None),
                  TrackerSet (ID e) (revision e)]\<rparr>) = Some (Some err, b_fail) \<longrightarrow>
        createEdge env fuel' e b_pre =
          Some (False,
            b_fail\<lparr>trace := trace b_fail @
                 [Logged ErrorLevel ''Error while dumping topology: %s'' [err]]\<rparr>))
   \<and> (updateTimes env (NodeElem n) b_start = (True, b_pre) \<longrightarrow>
        MetadataUpdated env fuel' (NodeElem n) b_start = createNode env fuel' n b_pre)
   \<and> (updateTimes env (EdgeElem e) b_start = (True, b_pre) \<longrightarrow>
        MetadataUpdated env fuel' (EdgeElem e) b_start = createEdge env fuel' e b_pre)"
proof (intro conjI impI; (elim conjE)?)
  assume ac: "archiveCurrent env b = (nodes, edges, b_arch)"
    and ri: "RollIndex env (world b_arch) = (Some err, w)"
  then show "rollAndDumpTopology env (Suc fuel) b =
        Some (Some err,
          b_arch\<lparr>world := w,
             trace := trace b_arch @
               [Logged DebugLevel ''Rolling the Index '' [], RollIndexCall (Some err)]\<rparr>)"
    by (simp add: rollAndDumpTopology_unfold del: rollAndDumpTopology.simps)
  from archiveCurrent_noCreate[of b env] ac
  show "filter isBulkIndexCall (trace b_arch) = filter isBulkIndexCall (trace b)"
    by (simp add: noCreate_def)
next
  assume r: "rollAndDumpTopology env fuel' b = Some (Some err, b_fail)"
  from rollAndDumpTopology_error[OF r] obtain nodes edges b_arch w where
    ac: "archiveCurrent env b = (nodes, edges, b_arch)"
    and b_fail: "b_fail = b_arch\<lparr>world := w,
                     trace := trace b_arch @
                       [Logged DebugLevel ''Rolling the Index '' [], RollIndexCall (Some err)]\<rparr>"
    by blast
  from archiveCurrent_noCreate[of b env] ac obtain evs where
    evs: "trace b_arch = trace b @ evs"
    and f: "filter isBulkIndexCall (trace b_arch) = filter isBulkIndexCall (trace b)"
    by (auto simp add: noCreate_def prefix_def)
  from evs f have "filter isBulkIndexCall evs = []" by simp
  with evs b_fail have "trace b_fail = trace b @ (evs @ [Logged DebugLevel ''Rolling the Index '' []])
                       @ [RollIndexCall (Some err)]
                    \<and> filter isBulkIndexCall (evs @ [Logged DebugLevel ''Rolling the Index '' []]) = []"
    by simp
  then show "\<exists>evs. trace b_fail = trace b @ evs @ [RollIndexCall (Some err)]
               \<and> filter isBulkIndexCall evs = []"
    by blast
next
  assume "BulkIndex env ''node'' (ID n @ ''-'' @ FormatInt (revision n)) (mapNode env n) (world b_pre)
            = ((True, None), w_idx)"
    and "rollAndDumpTopology env fuel'
           (b_pre\<lparr>prevRevision := (prevRevision b_pre)(ID n \<mapsto> revision n),
               world := w_idx,
               trace := trace b_pre @
                 [BulkIndexCall ''node'' (ID n @ ''-'' @ FormatInt (revision n)) (mapNode env n)
                    (True, None),
                  TrackerSet (ID n) (revision n)]\<rparr>) = Some (Some err, b_fail)"
  then show "createNode env fuel' n b_pre =
          Some (False,
            b_fail\<lparr>trace := trace b_fail @
                 [Logged ErrorLevel ''Error while dumping topology: %s'' [err]]\<rparr>)"
    by (simp add: createNode_unfold)
next
  assume "BulkIndex env ''edge'' (ID e @ ''-'' @ FormatInt (revision e)) (mapEdge env e) (world b_pre)
            = ((True, None), w_idx)"
    and "rollAndDumpTopology env fuel'
           (b_pre\<lparr>prevRevision := (prevRevision b_pre)(ID e \<mapsto> revision e),
               world := w_idx,
               trace := trace b_pre @
                 [BulkIndexCall ''edge'' (ID e @ ''-'' @ FormatInt (revision e)) (mapEdge env e)
                    (True, None),
                  TrackerSet (ID e) (revision e)]\<rparr>) = Some (Some err, b_fail)"
  then show "createEdge env fuel' e b_pre =
          Some (False,
            b_fail\<lparr>trace := trace b_fail @
                 [Logged ErrorLevel ''Error while dumping topology: %s'' [err]]\<rparr>)"
    by (simp add: createEdge_unfold)
next
  assume "updateTimes env (NodeElem n) b_start = (True, b_pre)"
  then show "MetadataUpdated env fuel' (NodeElem n) b_start = createNode env fuel' n b_pre"
    by (simp add: MetadataUpdated_def)
next
  assume "updateTimes env (EdgeElem e) b_start = (True, b_pre)"
  then show "MetadataUpdated env fuel' (EdgeElem e) b_start = createEdge env fuel' e b_pre"
    by (simp add: MetadataUpdated_def)
qed

text \<open>
  On \<open>fullStore\<close> the update of node \<open>a\<close>, and of edge \<open>a\<close>, asks for a rollover that
  cannot roll the index: both updates return false.
\<close>

theorem rollover_aborts_when_RollIndex_fails_witness:
  "updateTimes fullStore (NodeElem nodeA) backendA =
     (True, backendA\<lparr>trace :=
        [BulkUpdateWithPartialDocCall ''node'' ''a-0'' [''ArchivedAt'' \<mapsto> VInt 20] None]\<rparr>)
   \<and> RollIndex fullStore 1 = (Some ''no space'', 1)
   \<and> MetadataUpdated fullStore 1 (NodeElem nodeA) backendA =
       Some (False,
         \<lparr>prevRevision = [''a'' \<mapsto> 1], world = 1,
          trace =
            [BulkUpdateWithPartialDocCall ''node'' ''a-0'' [''ArchivedAt'' \<mapsto> VInt 20] None,
             BulkIndexCall ''node'' ''a-1'' (mapNode fullStore nodeA) (True, None),
             TrackerSet ''a'' 1,
             SearchCall ''node'' (BoolQuery []) ''live''
               \<lparr>Filter = None, Sort = True, SortBy = ''UpdatedAt''\<rparr> (Some [], None),
             SearchCall ''edge'' (BoolQuery []) ''live''
               \<lparr>Filter = None, Sort = True, SortBy = ''UpdatedAt''\<rparr> (Some [], None),
             Logged DebugLevel
               ''Mark all current nodes and edges as 'archived now' in the old index'' [],
             Logged DebugLevel ''Rolling the Index '' [],
             RollIndexCall (Some ''no space''),
             Logged ErrorLevel ''Error while dumping topology: %s'' [''no space'']]\<rparr>)
   \<and> MetadataUpdated fullStore 1 (EdgeElem edgeA) backendA =
       Some (False,
         \<lparr>prevRevision = [''a'' \<mapsto> 1], world = 1,
          trace =
            [BulkUpdateWithPartialDocCall ''edge'' ''a-0'' [''ArchivedAt'' \<mapsto> VInt 20] None,
             BulkIndexCall ''edge'' ''a-1'' (mapEdge fullStore edgeA) (True, None),
             TrackerSet ''a'' 1,
             SearchCall ''node'' (BoolQuery []) ''live''
               \<lparr>Filter = None, Sort = True, SortBy = ''UpdatedAt''\<rparr> (Some [], None),
             SearchCall ''edge'' (BoolQuery []) ''live''
               \<lparr>Filter = None, Sort = True, SortBy = ''UpdatedAt''\<rparr> (Some [], None),
             Logged DebugLevel
               ''Mark all current nodes and edges as 'archived now' in the old index'' [],
             Logged DebugLevel ''Rolling the Index '' [],
             RollIndexCall (Some ''no space''),
             Logged ErrorLevel ''Error while dumping topology: %s'' [''no space'']]\<rparr>)"
proof -
  let ?searches =
    "[SearchCall ''node'' (BoolQuery []) ''live''
        \<lparr>Filter = None, Sort = True, SortBy = ''UpdatedAt''\<rparr> (Some [], None),
      SearchCall ''edge'' (BoolQuery []) ''live''
        \<lparr>Filter = None, Sort = True, SortBy = ''UpdatedAt''\<rparr> (Some [], None),
      Logged DebugLevel
        ''Mark all current nodes and edges as 'archived now' in the old index'' []
      :: string event]"
  let ?n0 = "backendA\<lparr>trace :=
        [BulkUpdateWithPartialDocCall ''node'' ''a-0'' [''ArchivedAt'' \<mapsto> VInt 20] None]\<rparr>"
  let ?e0 = "backendA\<lparr>trace :=
        [BulkUpdateWithPartialDocCall ''edge'' ''a-0'' [''ArchivedAt'' \<mapsto> VInt 20] None]\<rparr>"
  let ?n2 = "?n0\<lparr>prevRevision := (prevRevision ?n0)(ID nodeA \<mapsto> revision nodeA),
               world := 1,
               trace := trace ?n0 @
                 [BulkIndexCall ''node'' (ID nodeA @ ''-'' @ FormatInt (revision nodeA))
                    (mapNode fullStore nodeA) (True, None),
                  TrackerSet (ID nodeA) (revision nodeA)]\<rparr>"
  let ?e2 = "?e0\<lparr>prevRevision := (prevRevision ?e0)(ID edgeA \<mapsto> revision edgeA),
               world := 1,
               trace := trace ?e0 @
                 [BulkIndexCall ''edge'' (ID edgeA @ ''-'' @ FormatInt (revision edgeA))
                    (mapEdge fullStore edgeA) (True, None),
                  TrackerSet (ID edgeA) (revision edgeA)]\<rparr>"
  let ?n4 = "?n2\<lparr>trace := trace ?n2 @ ?searches\<rparr>"
  let ?e4 = "?e2\<lparr>trace := trace ?e2 @ ?searches\<rparr>"
  let ?n3 = "?n4\<lparr>world := 1, trace := trace ?n4 @
               [Logged DebugLevel ''Rolling the Index '' [], RollIndexCall (Some ''no space'')]\<rparr>"
  let ?e3 = "?e4\<lparr>world := 1, trace := trace ?e4 @
               [Logged DebugLevel ''Rolling the Index '' [], RollIndexCall (Some ''no space'')]\<rparr>"
  have un: "updateTimes fullStore (NodeElem nodeA) backendA = (True, ?n0)"
    by (simp add: run_defs)
  have ue: "updateTimes fullStore (EdgeElem edgeA) backendA = (True, ?e0)"
    by (simp add: run_defs)
  have bn: "BulkIndex fullStore ''node'' (ID nodeA @ ''-'' @ FormatInt (revision nodeA))
              (mapNode fullStore nodeA) (world ?n0) = ((True, None), 1)"
    by (simp add: fullStore_def stubEnv_def backendA_def)
  have be: "BulkIndex fullStore ''edge'' (ID edgeA @ ''-'' @ FormatInt (revision edgeA))
              (mapEdge fullStore edgeA) (world ?e0) = ((True, None), 1)"
    by (simp add: fullStore_def stubEnv_def backendA_def)
  have an: "archiveCurrent fullStore ?n2 = ([], [], ?n4)"
    by (simp add: run_defs)
  have ae: "archiveCurrent fullStore ?e2 = ([], [], ?e4)"
    by (simp add: run_defs)
  have rn: "RollIndex fullStore (world ?n4) = (Some ''no space'', 1)"
    by (simp add: fullStore_def stubEnv_def backendA_def)
  have re: "RollIndex fullStore (world ?e4) = (Some ''no space'', 1)"
    by (simp add: fullStore_def stubEnv_def backendA_def)
  note tn = rollover_aborts_when_RollIndex_fails
              [where env = fullStore and b = ?n2 and nodes = "[]" and edges = "[]" and b_arch = ?n4
                 and err = "''no space''" and w = 1 and fuel = 0 and fuel' = 1 and b_fail = ?n3
                 and n = nodeA and b_pre = ?n0 and w_idx = 1 and b_start = backendA
                 and e = edgeA]
  note te = rollover_aborts_when_RollIndex_fails
              [where env = fullStore and b = ?e2 and nodes = "[]" and edges = "[]" and b_arch = ?e4
                 and err = "''no space''" and w = 1 and fuel = 0 and fuel' = 1 and b_fail = ?e3
                 and e = edgeA and b_pre = ?e0 and w_idx = 1 and b_start = backendA
                 and n = nodeA]
  from tn an rn have rolln: "rollAndDumpTopology fullStore 1 ?n2 = Some (Some ''no space'', ?n3)"
    by simp
  from te ae re have rolle: "rollAndDumpTopology fullStore 1 ?e2 = Some (Some ''no space'', ?e3)"
    by simp
  from tn bn rolln have cn: "createNode fullStore 1 nodeA ?n0 =
      Some (False, ?n3\<lparr>trace := trace ?n3 @
              [Logged ErrorLevel ''Error while dumping topology: %s'' [''no space'']]\<rparr>)"
    by blast
  from te be rolle have ce: "createEdge fullStore 1 edgeA ?e0 =
      Some (False, ?e3\<lparr>trace := trace ?e3 @
              [Logged ErrorLevel ''Error while dumping topology: %s'' [''no space'']]\<rparr>)"
    by blast
  from tn un cn have mn: "MetadataUpdated fullStore 1 (NodeElem nodeA) backendA =
      Some (False, ?n3\<lparr>trace := trace ?n3 @
              [Logged ErrorLevel ''Error while dumping topology: %s'' [''no space'']]\<rparr>)"
    by simp
  from te ue ce have me: "MetadataUpdated fullStore 1 (EdgeElem edgeA) backendA =
      Some (False, ?e3\<lparr>trace := trace ?e3 @
              [Logged ErrorLevel ''Error while dumping topology: %s'' [''no space'']]\<rparr>)"
    by simp
  have r1: "RollIndex fullStore 1 = (Some ''no space'', 1)"
    by (simp add: fullStore_def stubEnv_def)
  show ?thesis
    unfolding mn me un
    using r1 by (simp add: nodeA_def edgeA_def backendA_def FormatInt_def digits10.simps)
qed

section \<open>Queries\<close>

text \<open>
  C3 against the code. \<open>garbledStore\<close> returns three hits: one that is not JSON, one
  that \<open>Decode\<close> rejects, one that decodes. \<open>searchNodes\<close> and \<open>searchEdges\<close> log the two
  failures and return three elements: the zero element for the first hit, the
  half-filled element for the second, and the decoded third.
\<close>

theorem search_returns_undecodable_hits:
  "searchNodes garbledStore
     \<lparr>SearchQuery = \<lparr>Filter = None, Sort = False, SortBy = []\<rparr>,
      TimeFilter = None, MetadataFilter = None\<rparr> ''live'' backendA =
     ([\<lparr>ID = [], host = [], createdAt = 0, updatedAt = 0, deletedAt = 0, metadata = [],
        revision = 0\<rparr>,
       \<lparr>ID = ''a'', host = [], createdAt = 0, updatedAt = 0, deletedAt = 0, metadata = [],
        revision = 0\<rparr>,
       \<lparr>ID = ''a'', host = [], createdAt = 0, updatedAt = 0, deletedAt = 0, metadata = [],
        revision = 1\<rparr>],
      backendA\<lparr>trace :=
        [SearchCall ''node'' (BoolQuery []) ''live''
           \<lparr>Filter = None, Sort = False, SortBy = []\<rparr>
           (Some [''not json'', ''{ID:a}'', ''{ID:a,Revision:1}''], None),
         Logged DebugLevel ''Failed to unmarshal node: %+v'' [''not json''],
         Logged DebugLevel ''Failed to unmarshal node: %+v'' [''{ID:a}'']]\<rparr>)
   \<and> hitToNode garbledStore ''not json'' (zeroNode garbledStore) =
       (Some ''invalid character'', zeroNode garbledStore)
   \<and> searchEdges garbledStore
     \<lparr>SearchQuery = \<lparr>Filter = None, Sort = False, SortBy = []\<rparr>,
      TimeFilter = None, MetadataFilter = None\<rparr> ''live'' backendA =
     ([\<lparr>ID = [], host = [], createdAt = 0, updatedAt = 0, deletedAt = 0, metadata = [],
        revision = 0, parent = [], child = []\<rparr>,
       \<lparr>ID = ''a'', host = [], createdAt = 0, updatedAt = 0, deletedAt = 0, metadata = [],
        revision = 0, parent = [], child = []\<rparr>,
       \<lparr>ID = ''a'', host = [], createdAt = 0, updatedAt = 0, deletedAt = 0, metadata = [],
        revision = 1, parent = [], child = []\<rparr>],
      backendA\<lparr>trace :=
        [SearchCall ''edge'' (BoolQuery []) ''live''
           \<lparr>Filter = None, Sort = False, SortBy = []\<rparr>
           (Some [''not json'', ''{ID:a}'', ''{ID:a,Revision:1}''], None),
         Logged DebugLevel ''Failed to unmarshal edge: %+v'' [''not json''],
         Logged DebugLevel ''Failed to unmarshal edge: %+v'' [''{ID:a}'']]\<rparr>)
   \<and> hitToEdge garbledStore ''not json'' (zeroEdge garbledStore) =
       (Some ''invalid character'', zeroEdge garbledStore)"
  by (simp add: run_defs)

text \<open>
  C5 against the code. \<open>brokenTailStore\<close> returns revisions 0 and 1 of \<open>a\<close>, in ascending
  order, and then a hit that is not JSON. The loop of \<open>searchNodes\<close> appends the zero
  element for that hit, so the time-point lookup of \<open>a\<close> returns the zero node: its ID
  is empty and its revision is 0, while revision 1 was among the hits. \<open>GetEdge\<close> does
  the same. On \<open>partialTailStore\<close>, whose last hit has no revision, the element returned
  is the one \<open>Decode\<close> left half-filled, at revision 0.
\<close>

theorem time_point_lookup_returns_undecodable_hit:
  "hitToNode brokenTailStore ''{ID:a,Revision:1}'' (zeroNode brokenTailStore) =
     (None, \<lparr>ID = ''a'', host = [], createdAt = 0, updatedAt = 0, deletedAt = 0, metadata = [],
             revision = 1\<rparr>)
   \<and> GetNode brokenTailStore ''a'' \<lparr>TimeSlice = None, TimePoint = True\<rparr> backendA =
       ([\<lparr>ID = [], host = [], createdAt = 0, updatedAt = 0, deletedAt = 0, metadata = [],
          revision = 0\<rparr>],
        backendA\<lparr>trace :=
          [SearchCall ''node'' (BoolQuery [LeafQuery ''ID=a'']) ''live''
             \<lparr>Filter = Some ''ID=a'', Sort = True, SortBy = ''Revision''\<rparr>
             (Some [''{ID:a,Revision:0}'', ''{ID:a,Revision:1}'', ''not json''], None),
           Logged DebugLevel ''Failed to unmarshal node: %+v'' [''not json'']]\<rparr>)
   \<and> GetEdge brokenTailStore ''a'' \<lparr>TimeSlice = None, TimePoint = True\<rparr> backendA =
       ([\<lparr>ID = [], host = [], createdAt = 0, updatedAt = 0, deletedAt = 0, metadata = [],
          revision = 0, parent = [], child = []\<rparr>],
        backendA\<lparr>trace :=
          [SearchCall ''edge'' (BoolQuery [LeafQuery ''ID=a'']) ''live''
             \<lparr>Filter = Some ''ID=a'', Sort = True, SortBy = ''Revision''\<rparr>
             (Some [''{ID:a,Revision:0}'', ''{ID:a,Revision:1}'', ''not json''], None),
           Logged DebugLevel ''Failed to unmarshal edge: %+v'' [''not json'']]\<rparr>)
   \<and> GetNode partialTailStore ''a'' \<lparr>TimeSlice = None, TimePoint = True\<rparr> backendA =
       ([\<lparr>ID = ''a'', host = [], createdAt = 0, updatedAt = 0, deletedAt = 0, metadata = [],
          revision = 0\<rparr>],
        backendA\<lparr>trace :=
          [SearchCall ''node'' (BoolQuery [LeafQuery ''ID=a'']) ''live''
             \<lparr>Filter = Some ''ID=a'', Sort = True, SortBy = ''Revision''\<rparr>
             (Some [''{ID:a,Revision:0}'', ''{ID:a,Revision:1}'', ''{ID:a}''], None),
           Logged DebugLevel ''Failed to unmarshal node: %+v'' [''{ID:a}'']]\<rparr>)
   \<and> GetEdge partialTailStore ''a'' \<lparr>TimeSlice = None, TimePoint = True\<rparr> backendA =
       ([\<lparr>ID = ''a'', host = [], createdAt = 0, updatedAt = 0, deletedAt = 0, metadata = [],
          revision = 0, parent = [], child = []\<rparr>],
        backendA\<lparr>trace :=
          [SearchCall ''edge'' (BoolQuery [LeafQuery ''ID=a'']) ''live''
             \<lparr>Filter = Some ''ID=a'', Sort = True, SortBy = ''Revision''\<rparr>
             (Some [''{ID:a,Revision:0}'', ''{ID:a,Revision:1}'', ''{ID:a}''], None),
           Logged DebugLevel ''Failed to unmarshal edge: %+v'' [''{ID:a}'']]\<rparr>)"
  by (simp add: run_defs)

text \<open>
  What \<open>GetNode\<close> and \<open>GetEdge\<close> do with the elements their search returns when the
  time-point flag is set: more than one element is cut down to the last one.
\<close>

lemma time_point_lookup_keeps_last:
  "(TimePoint t
    \<and> searchNodes env
         \<lparr>SearchQuery = \<lparr>Filter = Some (NewTermStringFilter env ''ID'' i),
                          Sort = True, SortBy = ''Revision''\<rparr>,
          TimeFilter = getTimeFilter env (TimeSlice t),
          MetadataFilter = None\<rparr>
         (if TimeSlice t = None then GetIndexAlias env (world b) else []) b = (nodes, bn)
    \<longrightarrow> GetNode env i t b = (if length nodes > 1 then [last nodes] else nodes, bn))
   \<and> (TimePoint t
    \<and> searchEdges env
         \<lparr>SearchQuery = \<lparr>Filter = Some (NewTermStringFilter env ''ID'' i),
                          Sort = True, SortBy = ''Revision''\<rparr>,
          TimeFilter = getTimeFilter env (TimeSlice t),
          MetadataFilter = None\<rparr>
         (if TimeSlice t = None then GetIndexAlias env (world b) else []) b = (edges, be)
    \<longrightarrow> GetEdge env i t b = (if length edges > 1 then [last edges] else edges, be))"
proof -
  have ln: "length nodes > 1 \<Longrightarrow> nodes ! (length nodes - 1) = last nodes"
    by (cases nodes rule: rev_cases) auto
  have le: "length edges > 1 \<Longrightarrow> edges ! (length edges - 1) = last edges"
    by (cases edges rule: rev_cases) auto
  show ?thesis
    using ln le by (auto simp add: GetNode_def GetEdge_def Let_def)
qed

text \<open>
  \<open>historyStore\<close> returns revisions 0 and 1 of \<open>a\<close>, which both decode: the time-point
  lookup returns revision 1.
\<close>

lemma time_point_lookup_on_decodable_hits:
  "GetNode historyStore ''a'' \<lparr>TimeSlice = Some \<lparr>Start = 0, Last = 100\<rparr>, TimePoint = True\<rparr>
        backendA =
       ([\<lparr>ID = ''a'', host = [], createdAt = 0, updatedAt = 0, deletedAt = 0, metadata = [],
          revision = 1\<rparr>],
        backendA\<lparr>trace :=
          [SearchCall ''node'' (BoolQuery [LeafQuery ''slice'', LeafQuery ''ID=a'']) []
             \<lparr>Filter = Some ''ID=a'', Sort = True, SortBy = ''Revision''\<rparr>
             (Some [''{ID:a,Revision:0}'', ''{ID:a,Revision:1}''], None)]\<rparr>)
   \<and> GetEdge historyStore ''a'' \<lparr>TimeSlice = Some \<lparr>Start = 0, Last = 100\<rparr>, TimePoint = True\<rparr>
        backendA =
       ([\<lparr>ID = ''a'', host = [], createdAt = 0, updatedAt = 0, deletedAt = 0, metadata = [],
          revision = 1, parent = [], child = []\<rparr>],
        backendA\<lparr>trace :=
          [SearchCall ''edge'' (BoolQuery [LeafQuery ''slice'', LeafQuery ''ID=a'']) []
             \<lparr>Filter = Some ''ID=a'', Sort = True, SortBy = ''Revision''\<rparr>
             (Some [''{ID:a,Revision:0}'', ''{ID:a,Revision:1}''], None)]\<rparr>)"
  by (simp add: run_defs)

text \<open>
  C7. \<open>Query\<close> searches with a bool query whose must clauses are the fragments
  \<open>FormatFilter\<close> returned for the time filter, the identity filter and the metadata
  filter, in that order, without those that are nil: as many clauses as fragments that
  are not nil. A document matches it exactly when it matches every fragment present. When
  all three are nil the query has no clause and every document matches.
\<close>

theorem Query_is_conjunction_of_present_filters:
  "Query env obj tsq index b =
     clientSearch env obj
       (BoolQuery (List.map_filter (\<lambda>q. q)
          [FormatFilter env (TimeFilter tsq) [],
           FormatFilter env (Filter (SearchQuery tsq)) [],
           FormatFilter env (MetadataFilter tsq) ''Metadata'']))
       index (SearchQuery tsq) b
   \<and> matches leaf
        (BoolQuery (List.map_filter (\<lambda>q. q)
          [FormatFilter env (TimeFilter tsq) [],
           FormatFilter env (Filter (SearchQuery tsq)) [],
           FormatFilter env (MetadataFilter tsq) ''Metadata''])) d
      = ((\<forall>q. FormatFilter env (TimeFilter tsq) [] = Some q \<longrightarrow> matches leaf q d)
         \<and> (\<forall>q. FormatFilter env (Filter (SearchQuery tsq)) [] = Some q \<longrightarrow> matches leaf q d)
         \<and> (\<forall>q. FormatFilter env (MetadataFilter tsq) ''Metadata'' = Some q
                \<longrightarrow> matches leaf q d))
   \<and> length (List.map_filter (\<lambda>q. q)
          [FormatFilter env (TimeFilter tsq) [],
           FormatFilter env (Filter (SearchQuery tsq)) [],
           FormatFilter env (MetadataFilter tsq) ''Metadata''])
      = length (filter (\<lambda>q. q \<noteq> None)
          [FormatFilter env (TimeFilter tsq) [],
           FormatFilter env (Filter (SearchQuery tsq)) [],
           FormatFilter env (MetadataFilter tsq) ''Metadata''])
   \<and> (FormatFilter env (TimeFilter tsq) [] = None
      \<and> FormatFilter env (Filter (SearchQuery tsq)) [] = None
      \<and> FormatFilter env (MetadataFilter tsq) ''Metadata'' = None \<longrightarrow>
        Query env obj tsq index b = clientSearch env obj (BoolQuery []) index (SearchQuery tsq) b
        \<and> matches leaf (BoolQuery []) d)"
  by (cases "FormatFilter env (TimeFilter tsq) []";
      cases "FormatFilter env (Filter (SearchQuery tsq)) []";
      cases "FormatFilter env (MetadataFilter tsq) ''Metadata''")
     (simp_all add: Query_def Let_def List.map_filter_simps)

text \<open>
  A query with an identity filter and a metadata filter and no time filter has two
  clauses; a query with no filter has none.
\<close>

theorem Query_is_conjunction_of_present_filters_witness:
  "Query quietStore ''node''
     \<lparr>SearchQuery = \<lparr>Filter = Some ''ID=a'', Sort = True, SortBy = ''Revision''\<rparr>,
      TimeFilter = None, MetadataFilter = Some ''.Type=host''\<rparr> ''live'' backendA =
     clientSearch quietStore ''node''
       (BoolQuery [LeafQuery ''ID=a'', LeafQuery ''Metadata.Type=host'']) ''live''
       \<lparr>Filter = Some ''ID=a'', Sort = True, SortBy = ''Revision''\<rparr> backendA
   \<and> matches (\<lambda>s d. d s \<noteq> None)
        (BoolQuery [LeafQuery ''ID=a'', LeafQuery ''Metadata.Type=host''])
        [''ID=a'' \<mapsto> VInt 1, ''Metadata.Type=host'' \<mapsto> VInt 1]
   \<and> \<not> matches (\<lambda>s d. d s \<noteq> None)
        (BoolQuery [LeafQuery ''ID=a'', LeafQuery ''Metadata.Type=host''])
        [''ID=a'' \<mapsto> VInt 1]
   \<and> FormatFilter quietStore None [] = None
   \<and> FormatFilter quietStore None ''Metadata'' = None
   \<and> Query quietStore ''node''
       \<lparr>SearchQuery = \<lparr>Filter = None, Sort = False, SortBy = []\<rparr>,
        TimeFilter = None, MetadataFilter = None\<rparr> ''live'' backendA =
     clientSearch quietStore ''node'' (BoolQuery []) ''live''
       \<lparr>Filter = None, Sort = False, SortBy = []\<rparr> backendA
   \<and> matches (\<lambda>s d. d s \<noteq> None) (BoolQuery []) [''ID=a'' \<mapsto> VInt 1]"
  using Query_is_conjunction_of_present_filters
          [where env = quietStore and obj = "''node''" and index = "''live''" and b = backendA
             and tsq = "\<lparr>SearchQuery = \<lparr>Filter = Some ''ID=a'', Sort = True,
                                          SortBy = ''Revision''\<rparr>,
                          TimeFilter = None, MetadataFilter = Some ''.Type=host''\<rparr>"
             and leaf = "\<lambda>s d. d s \<noteq> None"
             and d = "[''ID=a'' \<mapsto> VInt 1, ''Metadata.Type=host'' \<mapsto> VInt 1]"]
        Query_is_conjunction_of_present_filters
          [where env = quietStore and obj = "''node''" and index = "''live''" and b = backendA
             and tsq = "\<lparr>SearchQuery = \<lparr>Filter = None, Sort = False, SortBy = []\<rparr>,
                          TimeFilter = None, MetadataFilter = None\<rparr>"
             and leaf = "\<lambda>s d. d s \<noteq> None"
             and d = "[''ID=a'' \<mapsto> VInt 1]"]
  by (simp add: quietStore_def stubEnv_def List.map_filter_simps)

text \<open>
  C8. With a matcher whose \<open>Filter()\<close> fails, \<open>GetNodes\<close>, \<open>GetEdges\<close> and
  \<open>GetNodeEdges\<close> return the empty list and the backend unchanged: nothing was added to the
  trace, so no search was made, and the result carries no error.
\<close>

theorem bulk_queries_empty_on_matcher_error:
  "GetNodes env t (Some (f, Some err)) b = ([], b)
   \<and> GetEdges env t (Some (f, Some err)) b = ([], b)
   \<and> GetNodeEdges env n t (Some (f, Some err)) b = ([], b)"
  by (simp add: GetNodes_def GetEdges_def GetNodeEdges_def matcherFilter_def Let_def)

text \<open>
  The three bulk queries with a failing matcher on \<open>quietStore\<close>.
\<close>

theorem bulk_queries_empty_on_matcher_error_witness:
  "GetNodes quietStore \<lparr>TimeSlice = None, TimePoint = True\<rparr>
     (Some (None, Some ''bad matcher'')) backendA = ([], backendA)
   \<and> GetEdges quietStore \<lparr>TimeSlice = None, TimePoint = True\<rparr>
     (Some (None, Some ''bad matcher'')) backendA = ([], backendA)
   \<and> GetNodeEdges quietStore nodeA \<lparr>TimeSlice = None, TimePoint = True\<rparr>
     (Some (None, Some ''bad matcher'')) backendA = ([], backendA)"
  using bulk_queries_empty_on_matcher_error
          [where env = quietStore and t = "\<lparr>TimeSlice = None, TimePoint = True\<rparr>"
             and f = None and err = "''bad matcher''" and b = backendA and n = nodeA]
  by simp

end
